theory Spec2Isabelle
  imports Complex_Main "HOL-Library.AList"
begin

section \<open>Python values, errors and dictionaries\<close>

text \<open>
  The nodes of \<^verbatim>\<open>nodes.py\<close> pass Python objects around without looking inside them.
  A value is one of the primitives the code builds itself (\<^verbatim>\<open>None\<close>, booleans, integers,
  floats, strings, lists) or an opaque object handle (a model, a tokenizer, a transform,
  an image buffer). Floats are only ever handed on, never computed with, and are written
  as reals.
\<close>

datatype pyval =
    PNone
  | PBool bool
  | PInt int
  | PFloat real
  | PStr string
  | PList "pyval list"
  | PObj nat

datatype pyerr =
    KeyError string
  | UnexpectedKeyword string
  | MissingArguments "string list"
  | TypeError string
  | AttributeError string
  | ValueError string
  | RuntimeError string
  | OSError string

text \<open>
  A \<^verbatim>\<open>dict\<close> keeps its keys in insertion order, so it is an association list; assignment
  \<^verbatim>\<open>d[k] = v\<close> is \<^const>\<open>AList.update\<close> (an existing key keeps its place, a new one goes last).
\<close>

type_synonym dict = "(string \<times> pyval) list"

definition contains :: "dict \<Rightarrow> string \<Rightarrow> bool" where
  "contains d k = (map_of d k \<noteq> None)"

definition get_default :: "dict \<Rightarrow> string \<Rightarrow> pyval \<Rightarrow> pyval" where
  "get_default d k dflt = (case map_of d k of None \<Rightarrow> dflt | Some v \<Rightarrow> v)"

definition getitem :: "dict \<Rightarrow> string \<Rightarrow> pyerr + pyval" where
  "getitem d k = (case map_of d k of None \<Rightarrow> Inl (KeyError k) | Some v \<Rightarrow> Inr v)"

definition setitem :: "string \<Rightarrow> pyval \<Rightarrow> dict \<Rightarrow> dict" where
  "setitem k v d = AList.update k v d"

section \<open>Statements that may raise and that change global state\<close>

text \<open>
  A statement run in a state \<open>'s\<close> either raises (\<open>Inl\<close>) or yields a value (\<open>Inr\<close>), and
  leaves a state behind in both cases. \<open>py_bind\<close> is sequencing: a raise skips the rest.
\<close>

type_synonym ('s, 'a) prog = "'s \<Rightarrow> (pyerr + 'a) \<times> 's"

definition py_return :: "'a \<Rightarrow> ('s, 'a) prog" where
  "py_return x s = (Inr x, s)"

definition py_lift :: "pyerr + 'a \<Rightarrow> ('s, 'a) prog" where
  "py_lift r s = (r, s)"

definition py_bind :: "('s, 'a) prog \<Rightarrow> ('a \<Rightarrow> ('s, 'b) prog) \<Rightarrow> ('s, 'b) prog" where
  "py_bind m f s = (case m s of (Inl e, s') \<Rightarrow> (Inl e, s') | (Inr x, s') \<Rightarrow> f x s')"

section \<open>Model loader\<close>

text \<open>Sequencing for code that touches no global state: the first raise ends it.\<close>

definition py_then :: "pyerr + 'a \<Rightarrow> ('a \<Rightarrow> pyerr + 'b) \<Rightarrow> pyerr + 'b" where
  "py_then r f = (case r of Inl e \<Rightarrow> Inl e | Inr x \<Rightarrow> f x)"

text \<open>\<^verbatim>\<open>os.path.join(a, b)\<close> for two components, POSIX rules.\<close>

definition path_join :: "string \<Rightarrow> string \<Rightarrow> string" where
  "path_join a b =
     (if take 1 b = ''/'' then b
      else if a = [] \<or> last a = CHR ''/'' then a @ b
      else a @ ''/'' @ b)"

text \<open>
  Attribute access on a configuration object, whose attributes are kept as a dictionary:
  reading an attribute that is not there raises AttributeError, assignment always works.
\<close>

definition getattr :: "dict \<Rightarrow> string \<Rightarrow> pyerr + pyval" where
  "getattr obj name =
     (case map_of obj name of None \<Rightarrow> Inl (AttributeError name) | Some v \<Rightarrow> Inr v)"

definition setattr :: "string \<Rightarrow> pyval \<Rightarrow> dict \<Rightarrow> dict" where
  "setattr name v obj = AList.update name v obj"

text \<open>\<^verbatim>\<open>x - 1\<close>: defined on numbers (a boolean counts as 0 or 1), TypeError otherwise.\<close>

fun minus_one :: "pyval \<Rightarrow> pyerr + pyval" where
  "minus_one (PInt n) = Inr (PInt (n - 1))"
| "minus_one (PBool b) = Inr (PInt ((if b then 1 else 0) - 1))"
| "minus_one (PFloat x) = Inr (PFloat (x - 1))"
| "minus_one v = Inl (TypeError ''unsupported operand type(s) for -'')"

text \<open>
  What \<^verbatim>\<open>load_model\<close> calls outside this file: the configuration, model, tokenizer and
  transform classes of the \<^verbatim>\<open>modeling\<close> and \<^verbatim>\<open>data\<close> packages, and the functions of
  torch and accelerate. Each either raises or returns; objects other than the two
  configurations are opaque handles.
\<close>

record loader_platform =
  Qwen2Config_from_json_file :: "string \<Rightarrow> pyerr + dict"
  SiglipVisionConfig_from_json_file :: "string \<Rightarrow> pyerr + dict"
  load_ae :: "string \<Rightarrow> pyerr + pyval \<times> pyval"
  BagelConfig :: "dict \<Rightarrow> dict \<Rightarrow> pyval \<Rightarrow> dict \<Rightarrow> pyerr + pyval"
  Qwen2ForCausalLM :: "dict \<Rightarrow> pyerr + pyval"
  SiglipVisionModel :: "dict \<Rightarrow> pyerr + pyval"
  Bagel :: "pyval \<Rightarrow> pyval \<Rightarrow> pyval \<Rightarrow> pyerr + pyval"
  convert_conv2d_to_linear :: "pyval \<Rightarrow> dict \<Rightarrow> pyerr + pyval"
  Qwen2Tokenizer_from_pretrained :: "string \<Rightarrow> pyerr + pyval"
  add_special_tokens :: "pyval \<Rightarrow> pyerr + pyval \<times> pyval \<times> pyval"
  ImageTransform :: "int \<Rightarrow> int \<Rightarrow> int \<Rightarrow> pyerr + pyval"
  cuda_device_count :: nat
  infer_auto_device_map :: "pyval \<Rightarrow> (nat \<times> string) list \<Rightarrow> string list \<Rightarrow> pyerr + dict"
  load_checkpoint_and_dispatch :: "pyval \<Rightarrow> string \<Rightarrow> dict \<Rightarrow> dict \<Rightarrow> pyerr + pyval"
  model_eval :: "pyval \<Rightarrow> pyerr + pyval"

text \<open>The module names \<^verbatim>\<open>load_model\<close> keeps on one device.\<close>

definition same_device_modules :: "string list" where
  "same_device_modules =
     [''language_model.model.embed_tokens'',
      ''time_embedder'',
      ''latent_pos_embed'',
      ''vae2llm'',
      ''llm2vae'',
      ''connector'',
      ''vit_pos_embed'']"

text \<open>
  The two loops over \<^verbatim>\<open>same_device_modules\<close>. With one device a name the map lacks is
  put on \<^verbatim>\<open>"cuda:0"\<close>; otherwise only names the map has are touched.
\<close>

fun assign_or_default :: "pyval \<Rightarrow> string list \<Rightarrow> dict \<Rightarrow> dict" where
  "assign_or_default first_device [] device_map = device_map"
| "assign_or_default first_device (k # ks) device_map =
     assign_or_default first_device ks
       (if contains device_map k then setitem k first_device device_map
        else setitem k (PStr ''cuda:0'') device_map)"

fun assign_present :: "pyval \<Rightarrow> string list \<Rightarrow> dict \<Rightarrow> dict" where
  "assign_present first_device [] device_map = device_map"
| "assign_present first_device (k # ks) device_map =
     assign_present first_device ks
       (if contains device_map k then setitem k first_device device_map
        else device_map)"

text \<open>
  The pass over the automatic placement (\<^verbatim>\<open>if torch.cuda.device_count() == 1: ... else:
  ...\<close>); \<^verbatim>\<open>device_map.get(k)\<close> without a default gives \<^verbatim>\<open>None\<close>.
\<close>

definition place_same_device :: "nat \<Rightarrow> dict \<Rightarrow> dict" where
  "place_same_device device_count device_map =
     (if device_count = 1
      then (let first_device =
                  get_default device_map (same_device_modules ! 0) (PStr ''cuda:0'')
            in assign_or_default first_device same_device_modules device_map)
      else (let first_device = get_default device_map (same_device_modules ! 0) PNone
            in assign_present first_device same_device_modules device_map))"

text \<open>\<^verbatim>\<open>LoadBAGELModel.load_model\<close>; the two \<^verbatim>\<open>print\<close> calls are left out.\<close>

definition load_model :: "loader_platform \<Rightarrow> string \<Rightarrow> pyerr + pyval list" where
  "load_model X model_path =
     py_then (Qwen2Config_from_json_file X (path_join model_path ''llm_config.json''))
       (\<lambda>llm_config.
     let llm_config = setattr ''qk_norm'' (PBool True) llm_config;
         llm_config = setattr ''tie_word_embeddings'' (PBool False) llm_config;
         llm_config = setattr ''layer_module'' (PStr ''Qwen2MoTDecoderLayer'') llm_config in
     py_then (SiglipVisionConfig_from_json_file X (path_join model_path ''vit_config.json''))
       (\<lambda>vit_config.
     let vit_config = setattr ''rope'' (PBool False) vit_config in
     py_then (getattr vit_config ''num_hidden_layers'') (\<lambda>num_hidden_layers.
     py_then (minus_one num_hidden_layers) (\<lambda>num_hidden_layers.
     let vit_config = setattr ''num_hidden_layers'' num_hidden_layers vit_config in
     py_then (load_ae X (path_join model_path ''ae.safetensors''))
       (\<lambda>(vae_model, vae_config).
     py_then (BagelConfig X llm_config vit_config vae_config
                [(''visual_gen'', PBool True),
                 (''visual_und'', PBool True),
                 (''vit_max_num_patch_per_side'', PInt 70),
                 (''connector_act'', PStr ''gelu_pytorch_tanh''),
                 (''latent_patch_size'', PInt 2),
                 (''max_latent_size'', PInt 64)])
       (\<lambda>config.
     py_then (Qwen2ForCausalLM X llm_config) (\<lambda>language_model.
     py_then (SiglipVisionModel X vit_config) (\<lambda>vit_model.
     py_then (Bagel X language_model vit_model config) (\<lambda>model.
     py_then (convert_conv2d_to_linear X model vit_config) (\<lambda>model.
     py_then (Qwen2Tokenizer_from_pretrained X model_path) (\<lambda>tokenizer.
     py_then (add_special_tokens X tokenizer) (\<lambda>(tokenizer, new_token_ids, _).
     py_then (ImageTransform X 1024 512 16) (\<lambda>vae_transform.
     py_then (ImageTransform X 980 224 14) (\<lambda>vit_transform.
     let max_mem_per_gpu = ''40GiB'' in
     py_then (infer_auto_device_map X model
                (map (\<lambda>i. (i, max_mem_per_gpu)) [0 ..< cuda_device_count X])
                [''Bagel'', ''Qwen2MoTDecoderLayer''])
       (\<lambda>device_map.
     let device_map = place_same_device (cuda_device_count X) device_map in
     py_then (load_checkpoint_and_dispatch X model (path_join model_path ''ema.safetensors'')
                device_map
                [(''offload_buffers'', PBool True),
                 (''dtype'', PStr ''torch.bfloat16''),
                 (''force_hooks'', PBool True)])
       (\<lambda>model.
     py_then (model_eval X model) (\<lambda>model.
     Inr [model, vae_model, tokenizer, vae_transform, vit_transform,
          new_token_ids])))))))))))))))))"

text \<open>
  A test double for the loader's surroundings: reading a configuration file or loading
  a checkpoint whose path is in \<open>missing\<close> raises, and so does \<^verbatim>\<open>model.eval()\<close> when
  \<open>missing\<close> names it; every other step succeeds with a numbered handle, there are \<open>n\<close>
  devices and the automatic placement is \<open>plan\<close>.
\<close>

definition mock_loader :: "string list \<Rightarrow> nat \<Rightarrow> dict \<Rightarrow> loader_platform" where
  "mock_loader missing n plan =
     \<lparr>Qwen2Config_from_json_file =
        (\<lambda>path. if path \<in> set missing then Inl (OSError path)
               else Inr [(''hidden_size'', PInt 3584)]),
      SiglipVisionConfig_from_json_file =
        (\<lambda>path. if path \<in> set missing then Inl (OSError path)
               else Inr [(''num_hidden_layers'', PInt 27)]),
      load_ae = (\<lambda>path. Inr (PObj 2, PObj 20)),
      BagelConfig = (\<lambda>llm_config vit_config vae_config kwargs. Inr (PObj 21)),
      Qwen2ForCausalLM = (\<lambda>llm_config. Inr (PObj 22)),
      SiglipVisionModel = (\<lambda>vit_config. Inr (PObj 23)),
      Bagel = (\<lambda>language_model vit_model config. Inr (PObj 1)),
      convert_conv2d_to_linear = (\<lambda>model vit_config. Inr model),
      Qwen2Tokenizer_from_pretrained = (\<lambda>path. Inr (PObj 3)),
      add_special_tokens = (\<lambda>tokenizer. Inr (tokenizer, PObj 6, PInt 0)),
      ImageTransform = (\<lambda>a b c. Inr (if a = 1024 then PObj 4 else PObj 5)),
      cuda_device_count = n,
      infer_auto_device_map = (\<lambda>model max_memory no_split. Inr plan),
      load_checkpoint_and_dispatch =
        (\<lambda>model checkpoint device_map kwargs.
           if checkpoint \<in> set missing then Inl (OSError checkpoint) else Inr model),
      model_eval =
        (\<lambda>model. if ''model.eval'' \<in> set missing
                 then Inl (RuntimeError ''model.eval'') else Inr model)\<rparr>"

text \<open>
  Three placement plans: one that splits the language model over two devices and so
  names its embedding layer, one that puts the whole model on one device, and one that
  keeps the language model whole on device 0 and everything else on device 1.
\<close>

definition split_plan :: dict where
  "split_plan =
     [(''language_model.model.embed_tokens'', PInt 0),
      (''language_model.model.layers.0'', PInt 0),
      (''language_model.model.layers.1'', PInt 1),
      (''language_model.model.norm'', PInt 1),
      (''language_model.lm_head'', PInt 1),
      (''time_embedder'', PInt 1),
      (''latent_pos_embed'', PInt 1),
      (''vae2llm'', PInt 1),
      (''llm2vae'', PInt 1),
      (''vit_model'', PInt 1),
      (''connector'', PInt 1),
      (''vit_pos_embed'', PInt 1)]"

definition whole_plan :: dict where
  "whole_plan = [([], PInt 0)]"

definition top_level_plan :: dict where
  "top_level_plan =
     [(''language_model'', PInt 0),
      (''time_embedder'', PInt 1),
      (''latent_pos_embed'', PInt 1),
      (''vae2llm'', PInt 1),
      (''llm2vae'', PInt 1),
      (''vit_model'', PInt 1),
      (''connector'', PInt 1),
      (''vit_pos_embed'', PInt 1)]"

section \<open>What is observed of a load\<close>

text \<open>
  Every step \<^verbatim>\<open>load_model\<close> takes before it loads the checkpoint has succeeded, each
  called with what the steps before it gave: the two configuration files were read and
  overridden, the layer count was there and could be decremented, the autoencoder, the
  top-level configuration, the language model, the vision model and the combined model
  were built and the patch embedding converted (giving \<open>model\<close>), the tokenizer was loaded
  and extended, both transforms were built, and the automatic placement gave
  \<open>device_map\<close>.
\<close>

definition prepared ::
  "loader_platform \<Rightarrow> string \<Rightarrow> pyval \<Rightarrow> pyval \<Rightarrow> pyval \<Rightarrow> pyval \<Rightarrow> pyval \<Rightarrow> pyval \<Rightarrow> dict \<Rightarrow> bool" where
  "prepared X model_path model vae_model tokenizer vae_transform vit_transform new_token_ids
     device_map =
     (\<exists>llm_read vit_read layers layers' vae_config config language_model vit_model built
         loaded_tokenizer extra.
        Qwen2Config_from_json_file X (path_join model_path ''llm_config.json'') =
          Inr llm_read \<and>
        SiglipVisionConfig_from_json_file X (path_join model_path ''vit_config.json'') =
          Inr vit_read \<and>
        getattr (setattr ''rope'' (PBool False) vit_read) ''num_hidden_layers'' =
          Inr layers \<and>
        minus_one layers = Inr layers' \<and>
        load_ae X (path_join model_path ''ae.safetensors'') = Inr (vae_model, vae_config) \<and>
        (let llm_config =
               setattr ''layer_module'' (PStr ''Qwen2MoTDecoderLayer'')
                 (setattr ''tie_word_embeddings'' (PBool False)
                    (setattr ''qk_norm'' (PBool True) llm_read));
             vit_config =
               setattr ''num_hidden_layers'' layers'
                 (setattr ''rope'' (PBool False) vit_read)
         in BagelConfig X llm_config vit_config vae_config
              [(''visual_gen'', PBool True),
               (''visual_und'', PBool True),
               (''vit_max_num_patch_per_side'', PInt 70),
               (''connector_act'', PStr ''gelu_pytorch_tanh''),
               (''latent_patch_size'', PInt 2),
               (''max_latent_size'', PInt 64)] = Inr config \<and>
            Qwen2ForCausalLM X llm_config = Inr language_model \<and>
            SiglipVisionModel X vit_config = Inr vit_model \<and>
            Bagel X language_model vit_model config = Inr built \<and>
            convert_conv2d_to_linear X built vit_config = Inr model) \<and>
        Qwen2Tokenizer_from_pretrained X model_path = Inr loaded_tokenizer \<and>
        add_special_tokens X loaded_tokenizer = Inr (tokenizer, new_token_ids, extra) \<and>
        ImageTransform X 1024 512 16 = Inr vae_transform \<and>
        ImageTransform X 980 224 14 = Inr vit_transform \<and>
        infer_auto_device_map X model
          (map (\<lambda>i. (i, ''40GiB'')) [0 ..< cuda_device_count X])
          [''Bagel'', ''Qwen2MoTDecoderLayer''] = Inr device_map)"

text \<open>
  The call that loads the checkpoint, as \<^verbatim>\<open>load_model\<close> makes it: on the model the steps
  before built, with the device map after the placement pass.
\<close>

definition checkpoint_load :: "loader_platform \<Rightarrow> string \<Rightarrow> pyval \<Rightarrow> dict \<Rightarrow> pyerr + pyval" where
  "checkpoint_load X model_path model device_map =
     load_checkpoint_and_dispatch X model (path_join model_path ''ema.safetensors'')
       (place_same_device (cuda_device_count X) device_map)
       [(''offload_buffers'', PBool True),
        (''dtype'', PStr ''torch.bfloat16''),
        (''force_hooks'', PBool True)]"

section \<open>Parameter capture nodes\<close>

text \<open>
  \<^verbatim>\<open>BagelPrompt.input_text\<close> and \<^verbatim>\<open>LoadEditImage.input_image\<close>: bind the argument to a
  local and return it in a one-element tuple. Neither touches anything else, whatever
  the surrounding state is.
\<close>

definition input_text :: "pyval \<Rightarrow> ('s, pyval list) prog" where
  "input_text text = (let prompt = text in py_return [prompt])"

definition input_image :: "pyval \<Rightarrow> ('s, pyval list) prog" where
  "input_image image_path = (let image = image_path in py_return [image])"

section \<open>Random generators and the inferencer\<close>

text \<open>
  The process-wide state the dispatch nodes write: the generator of \<^verbatim>\<open>random\<close>, the legacy
  generator of \<^verbatim>\<open>numpy.random\<close>, torch's default generator and its CUDA generators, and
  the two cuDNN switches. What a generator's state is belongs to the libraries, so it is
  a type parameter \<open>'g\<close>.
\<close>

record 'g rng_env =
  py_random :: 'g
  np_random :: 'g
  torch_default :: 'g
  torch_cuda :: 'g
  cudnn_deterministic :: bool
  cudnn_benchmark :: bool

text \<open>
  One call of the inferencer, as a test double around it would record it: the handles
  the inferencer object was built from, the keyword arguments of the call, the generator
  state the call started in, and what came back.
\<close>

record 'g invocation =
  inv_handles :: "pyval list"
  inv_kwargs :: dict
  inv_env :: "'g rng_env"
  inv_reply :: "pyerr + dict"

record 'g world =
  rng :: "'g rng_env"
  inferencer_calls :: "'g invocation list"

text \<open>
  What the code takes from outside this file: whether CUDA is there, the state each
  library's seeding installs for a seed, and \<^verbatim>\<open>InterleaveInferencer.__call__\<close>, which lives
  in the \<^verbatim>\<open>inferencer\<close> package: given the handles, the keyword arguments and the
  generator state it returns a result mapping or raises, and leaves a generator state.
\<close>

record 'g platform =
  cuda_is_available :: bool
  random_seeded :: "int \<Rightarrow> 'g"
  numpy_seeded :: "int \<Rightarrow> 'g"
  torch_seeded :: "int \<Rightarrow> 'g"
  cuda_seeded :: "int \<Rightarrow> 'g"
  inferencer_run :: "pyval list \<Rightarrow> dict \<Rightarrow> 'g rng_env \<Rightarrow> (pyerr + dict) \<times> 'g rng_env"

text \<open>\<^verbatim>\<open>random.seed(seed)\<close> takes any integer.\<close>

definition random_seed :: "'g platform \<Rightarrow> int \<Rightarrow> ('g world, unit) prog" where
  "random_seed P s w = (Inr (), w\<lparr>rng := (rng w)\<lparr>py_random := random_seeded P s\<rparr>\<rparr>)"

text \<open>\<^verbatim>\<open>np.random.seed(seed)\<close> raises ValueError unless \<open>0 \<le> seed < 2^32\<close>.\<close>

definition np_random_seed :: "'g platform \<Rightarrow> int \<Rightarrow> ('g world, unit) prog" where
  "np_random_seed P s w =
     (if 0 \<le> s \<and> s < 2 ^ 32
      then (Inr (), w\<lparr>rng := (rng w)\<lparr>np_random := numpy_seeded P s\<rparr>\<rparr>)
      else (Inl (ValueError ''Seed must be between 0 and 2**32 - 1''), w))"

text \<open>
  \<^verbatim>\<open>torch.manual_seed(seed)\<close> raises RuntimeError unless \<open>-2^63 \<le> seed < 2^64\<close>; its
  effect on the default generator is what is recorded here.
\<close>

definition torch_manual_seed :: "'g platform \<Rightarrow> int \<Rightarrow> ('g world, unit) prog" where
  "torch_manual_seed P s w =
     (if - (2 ^ 63) \<le> s \<and> s < 2 ^ 64
      then (Inr (), w\<lparr>rng := (rng w)\<lparr>torch_default := torch_seeded P s\<rparr>\<rparr>)
      else (Inl (RuntimeError ''Overflow when unpacking long''), w))"

text \<open>
  \<^verbatim>\<open>torch.cuda.manual_seed\<close> and \<^verbatim>\<open>torch.cuda.manual_seed_all\<close>; the code reaches them
  only after \<^verbatim>\<open>torch.manual_seed\<close> has accepted the same seed.
\<close>

definition torch_cuda_manual_seed :: "'g platform \<Rightarrow> int \<Rightarrow> ('g world, unit) prog" where
  "torch_cuda_manual_seed P s w =
     (Inr (), w\<lparr>rng := (rng w)\<lparr>torch_cuda := cuda_seeded P s\<rparr>\<rparr>)"

definition torch_cuda_manual_seed_all :: "'g platform \<Rightarrow> int \<Rightarrow> ('g world, unit) prog" where
  "torch_cuda_manual_seed_all P s w =
     (Inr (), w\<lparr>rng := (rng w)\<lparr>torch_cuda := cuda_seeded P s\<rparr>\<rparr>)"

definition set_cudnn_deterministic :: "bool \<Rightarrow> ('g world, unit) prog" where
  "set_cudnn_deterministic b w = (Inr (), w\<lparr>rng := (rng w)\<lparr>cudnn_deterministic := b\<rparr>\<rparr>)"

definition set_cudnn_benchmark :: "bool \<Rightarrow> ('g world, unit) prog" where
  "set_cudnn_benchmark b w = (Inr (), w\<lparr>rng := (rng w)\<lparr>cudnn_benchmark := b\<rparr>\<rparr>)"

text \<open>
  The eight lines every dispatch function repeats word for word between building the
  inferencer and assembling its hyperparameters:
  \<^verbatim>\<open>
    random.seed(seed)
    np.random.seed(seed)
    torch.manual_seed(seed)
    if torch.cuda.is_available():
        torch.cuda.manual_seed(seed)
        torch.cuda.manual_seed_all(seed)
    torch.backends.cudnn.deterministic = True
    torch.backends.cudnn.benchmark = False
  \<close>
\<close>

definition reseed :: "'g platform \<Rightarrow> int \<Rightarrow> ('g world, unit) prog" where
  "reseed P seed =
     py_bind (random_seed P seed) (\<lambda>_.
     py_bind (np_random_seed P seed) (\<lambda>_.
     py_bind (torch_manual_seed P seed) (\<lambda>_.
     py_bind (if cuda_is_available P
              then py_bind (torch_cuda_manual_seed P seed) (\<lambda>_.
                   torch_cuda_manual_seed_all P seed)
              else py_return ()) (\<lambda>_.
     py_bind (set_cudnn_deterministic True) (\<lambda>_.
     set_cudnn_benchmark False)))))"

text \<open>
  \<^verbatim>\<open>InterleaveInferencer(model=..., ...)\<close> wraps the six handles; calling the object runs
  the external inferencer in the current generator state and is recorded.
\<close>

definition InterleaveInferencer ::
  "pyval \<Rightarrow> pyval \<Rightarrow> pyval \<Rightarrow> pyval \<Rightarrow> pyval \<Rightarrow> pyval \<Rightarrow> pyval list" where
  "InterleaveInferencer model vae_model tokenizer vae_transform vit_transform new_token_ids =
     [model, vae_model, tokenizer, vae_transform, vit_transform, new_token_ids]"

definition inferencer_call :: "'g platform \<Rightarrow> pyval list \<Rightarrow> dict \<Rightarrow> ('g world, dict) prog" where
  "inferencer_call P inferencer kwargs w =
     (case inferencer_run P inferencer kwargs (rng w) of
        (reply, env') \<Rightarrow>
          (reply,
           \<lparr>rng = env',
            inferencer_calls = inferencer_calls w @
              [\<lparr>inv_handles = inferencer, inv_kwargs = kwargs, inv_env = rng w,
                inv_reply = reply\<rparr>]\<rparr>))"

text \<open>The inferencer calls a statement makes when run in \<open>w\<close>: what it adds to the record.\<close>

definition calls_made :: "('g world, 'a) prog \<Rightarrow> 'g world \<Rightarrow> 'g invocation list" where
  "calls_made f w = drop (length (inferencer_calls w)) (inferencer_calls (snd (f w)))"

section \<open>Inference dispatch nodes\<close>

text \<open>
  Each function takes the parameters of the Python function, in its order (after
  \<^verbatim>\<open>self\<close>); the parameter \<^verbatim>\<open>image\<close> is written \<open>image_in\<close>. The seed is an integer;
  everything else is handed on as it came.
\<close>

text \<open>\<^verbatim>\<open>ImageGeneration.generate\<close>\<close>

definition ImageGeneration_generate ::
  "'g platform \<Rightarrow> pyval \<Rightarrow> pyval \<Rightarrow> pyval \<Rightarrow> pyval \<Rightarrow> pyval \<Rightarrow> pyval \<Rightarrow> pyval \<Rightarrow>
   pyval \<Rightarrow> int \<Rightarrow> pyval \<Rightarrow> pyval \<Rightarrow> pyval \<Rightarrow> pyval \<Rightarrow> pyval \<Rightarrow> pyval \<Rightarrow> pyval \<Rightarrow> pyval \<Rightarrow>
   ('g world, pyval list) prog" where
  "ImageGeneration_generate P model vae_model tokenizer vae_transform vit_transform
     new_token_ids prompt image_ratio seed cfg_text_scale cfg_img_scale cfg_interval
     timestep_shift num_timesteps cfg_renorm_min cfg_renorm_type text_temperature =
     (let inferencer = InterleaveInferencer model vae_model tokenizer vae_transform
            vit_transform new_token_ids in
      py_bind (reseed P seed) (\<lambda>_.
      let inference_hyper =
            [(''cfg_text_scale'', cfg_text_scale),
             (''cfg_img_scale'', cfg_img_scale),
             (''cfg_interval'', PList [PFloat 0.4, PFloat 1.0]),
             (''timestep_shift'', timestep_shift),
             (''num_timesteps'', num_timesteps),
             (''cfg_renorm_min'', cfg_renorm_min),
             (''cfg_renorm_type'', cfg_renorm_type)] in
      py_bind (inferencer_call P inferencer ((''text'', prompt) # inference_hyper))
        (\<lambda>output_dict.
      py_bind (py_lift (getitem output_dict ''image'')) (\<lambda>image.
      py_return [image]))))"

text \<open>\<^verbatim>\<open>ImageThinkGeneration.generate\<close>\<close>

definition ImageThinkGeneration_generate ::
  "'g platform \<Rightarrow> pyval \<Rightarrow> pyval \<Rightarrow> pyval \<Rightarrow> pyval \<Rightarrow> pyval \<Rightarrow> pyval \<Rightarrow> pyval \<Rightarrow>
   int \<Rightarrow> pyval \<Rightarrow> pyval \<Rightarrow> pyval \<Rightarrow> pyval \<Rightarrow> pyval \<Rightarrow> pyval \<Rightarrow> pyval \<Rightarrow> pyval \<Rightarrow> pyval \<Rightarrow>
   ('g world, pyval list) prog" where
  "ImageThinkGeneration_generate P model vae_model tokenizer vae_transform vit_transform
     new_token_ids prompt seed max_think_token_n cfg_text_scale cfg_img_scale
     timestep_shift num_timesteps cfg_renorm_min cfg_interval cfg_renorm_type
     text_temperature =
     (let inferencer = InterleaveInferencer model vae_model tokenizer vae_transform
            vit_transform new_token_ids in
      py_bind (reseed P seed) (\<lambda>_.
      let inference_hyper =
            [(''max_think_token_n'', max_think_token_n),
             (''do_sample'', PBool False),
             (''cfg_text_scale'', cfg_text_scale),
             (''cfg_img_scale'', cfg_img_scale),
             (''cfg_interval'', PList [PFloat 0.4, PFloat 1.0]),
             (''timestep_shift'', timestep_shift),
             (''num_timesteps'', num_timesteps),
             (''cfg_renorm_min'', cfg_renorm_min),
             (''cfg_renorm_type'', PStr ''global'')] in
      py_bind (inferencer_call P inferencer
                 ((''text'', prompt) # (''think'', PBool True) # inference_hyper))
        (\<lambda>output_dict.
      py_bind (py_lift (getitem output_dict ''image'')) (\<lambda>image.
      py_bind (py_lift (getitem output_dict ''text'')) (\<lambda>text.
      py_return [image, text])))))"

text \<open>\<^verbatim>\<open>ImageEditing.editing\<close>\<close>

definition ImageEditing_editing ::
  "'g platform \<Rightarrow> pyval \<Rightarrow> pyval \<Rightarrow> pyval \<Rightarrow> pyval \<Rightarrow> pyval \<Rightarrow> pyval \<Rightarrow> pyval \<Rightarrow>
   pyval \<Rightarrow> int \<Rightarrow> pyval \<Rightarrow> pyval \<Rightarrow> pyval \<Rightarrow> pyval \<Rightarrow> pyval \<Rightarrow>
   ('g world, pyval list) prog" where
  "ImageEditing_editing P model vae_model tokenizer vae_transform vit_transform
     new_token_ids prompt image_in seed cfg_text_scale cfg_img_scale timestep_shift
     num_timesteps cfg_renorm_min =
     (let inferencer = InterleaveInferencer model vae_model tokenizer vae_transform
            vit_transform new_token_ids in
      py_bind (reseed P seed) (\<lambda>_.
      let inference_hyper =
            [(''cfg_text_scale'', cfg_text_scale),
             (''cfg_img_scale'', cfg_img_scale),
             (''cfg_interval'', PList [PFloat 0.0, PFloat 1.0]),
             (''timestep_shift'', timestep_shift),
             (''num_timesteps'', num_timesteps),
             (''cfg_renorm_min'', cfg_renorm_min),
             (''cfg_renorm_type'', PStr ''text_channel'')] in
      py_bind (inferencer_call P inferencer
                 ((''image'', image_in) # (''text'', prompt) # inference_hyper))
        (\<lambda>output_dict.
      py_bind (py_lift (getitem output_dict ''image'')) (\<lambda>image.
      py_return [image]))))"

text \<open>\<^verbatim>\<open>ImageThinkEditing.editing\<close>\<close>

definition ImageThinkEditing_editing ::
  "'g platform \<Rightarrow> pyval \<Rightarrow> pyval \<Rightarrow> pyval \<Rightarrow> pyval \<Rightarrow> pyval \<Rightarrow> pyval \<Rightarrow> pyval \<Rightarrow>
   pyval \<Rightarrow> int \<Rightarrow> pyval \<Rightarrow> pyval \<Rightarrow> pyval \<Rightarrow> pyval \<Rightarrow> pyval \<Rightarrow> pyval \<Rightarrow>
   ('g world, pyval list) prog" where
  "ImageThinkEditing_editing P model vae_model tokenizer vae_transform vit_transform
     new_token_ids prompt image_in seed max_think_token_n cfg_text_scale cfg_img_scale
     timestep_shift num_timesteps cfg_renorm_min =
     (let inferencer = InterleaveInferencer model vae_model tokenizer vae_transform
            vit_transform new_token_ids in
      py_bind (reseed P seed) (\<lambda>_.
      let inference_hyper =
            [(''max_think_token_n'', max_think_token_n),
             (''do_sample'', PBool False),
             (''cfg_text_scale'', cfg_text_scale),
             (''cfg_img_scale'', cfg_img_scale),
             (''cfg_interval'', PList [PFloat 0.0, PFloat 1.0]),
             (''timestep_shift'', timestep_shift),
             (''num_timesteps'', num_timesteps),
             (''cfg_renorm_min'', cfg_renorm_min),
             (''cfg_renorm_type'', PStr ''text_channel'')] in
      py_bind (inferencer_call P inferencer
                 ((''image'', image_in) # (''text'', prompt) # (''think'', PBool True) #
                  inference_hyper))
        (\<lambda>output_dict.
      py_bind (py_lift (getitem output_dict ''image'')) (\<lambda>image.
      py_bind (py_lift (getitem output_dict ''text'')) (\<lambda>text.
      py_return [image, text])))))"

text \<open>\<^verbatim>\<open>ImageUnderstanding.understanding\<close>\<close>

definition ImageUnderstanding_understanding ::
  "'g platform \<Rightarrow> pyval \<Rightarrow> pyval \<Rightarrow> pyval \<Rightarrow> pyval \<Rightarrow> pyval \<Rightarrow> pyval \<Rightarrow> pyval \<Rightarrow>
   pyval \<Rightarrow> int \<Rightarrow> pyval \<Rightarrow>
   ('g world, pyval list) prog" where
  "ImageUnderstanding_understanding P model vae_model tokenizer vae_transform vit_transform
     new_token_ids prompt image_in seed max_think_token_n =
     (let inferencer = InterleaveInferencer model vae_model tokenizer vae_transform
            vit_transform new_token_ids in
      py_bind (reseed P seed) (\<lambda>_.
      let inference_hyper =
            [(''max_think_token_n'', PInt 1000),
             (''do_sample'', PBool False)] in
      py_bind (inferencer_call P inferencer
                 ((''image'', image_in) # (''text'', prompt) #
                  (''understanding_output'', PBool True) # inference_hyper))
        (\<lambda>output_dict.
      py_bind (py_lift (getitem output_dict ''text'')) (\<lambda>text.
      py_return [text]))))"

section \<open>Node classes and the host's call\<close>

text \<open>The classes \<^verbatim>\<open>__init__.py\<close> registers in \<^verbatim>\<open>NODE_CLASS_MAPPINGS\<close>.\<close>

datatype node_class =
    LoadBAGELModel
  | BagelPrompt
  | LoadEditImage
  | ImageGeneration
  | ImageThinkGeneration
  | ImageEditing
  | ImageThinkEditing
  | ImageUnderstanding

text \<open>The keys of \<^verbatim>\<open>INPUT_TYPES()["required"]\<close>, in the order the class lists them.\<close>

fun INPUT_TYPES_required :: "node_class \<Rightarrow> string list" where
  "INPUT_TYPES_required LoadBAGELModel = [''model_path'']"
| "INPUT_TYPES_required BagelPrompt = [''text'']"
| "INPUT_TYPES_required LoadEditImage = [''image_path'']"
| "INPUT_TYPES_required ImageGeneration =
     [''model'', ''vae_model'', ''tokenizer'', ''vae_transform'', ''vit_transform'',
      ''new_token_ids'', ''prompt'', ''seed'', ''image_ratio'', ''cfg_text_scale'',
      ''cfg_img_scale'', ''cfg_interval'', ''timestep_shift'', ''num_timesteps'',
      ''cfg_renorm_min'', ''cfg_renorm_type'', ''text_temperature'']"
| "INPUT_TYPES_required ImageThinkGeneration =
     [''model'', ''vae_model'', ''tokenizer'', ''vae_transform'', ''vit_transform'',
      ''new_token_ids'', ''prompt'', ''max_think_token_n'', ''seed'', ''image_ratio'',
      ''cfg_text_scale'', ''cfg_img_scale'', ''cfg_interval'', ''timestep_shift'',
      ''num_timesteps'', ''cfg_renorm_min'', ''cfg_renorm_type'', ''text_temperature'']"
| "INPUT_TYPES_required ImageEditing =
     [''model'', ''vae_model'', ''tokenizer'', ''vae_transform'', ''vit_transform'',
      ''new_token_ids'', ''prompt'', ''image'', ''seed'', ''image_ratio'',
      ''cfg_text_scale'', ''cfg_img_scale'', ''cfg_interval'', ''timestep_shift'',
      ''num_timesteps'', ''cfg_renorm_min'', ''cfg_renorm_type'', ''text_temperature'']"
| "INPUT_TYPES_required ImageThinkEditing =
     [''model'', ''vae_model'', ''tokenizer'', ''vae_transform'', ''vit_transform'',
      ''new_token_ids'', ''prompt'', ''image'', ''max_think_token_n'', ''seed'',
      ''image_ratio'', ''cfg_text_scale'', ''cfg_img_scale'', ''cfg_interval'',
      ''timestep_shift'', ''num_timesteps'', ''cfg_renorm_min'', ''cfg_renorm_type'',
      ''text_temperature'']"
| "INPUT_TYPES_required ImageUnderstanding =
     [''model'', ''vae_model'', ''tokenizer'', ''vae_transform'', ''vit_transform'',
      ''new_token_ids'', ''prompt'', ''image'', ''seed'', ''max_think_token_n'']"

text \<open>The class attribute \<^verbatim>\<open>FUNCTION\<close>: the name of the method the host calls.\<close>

fun FUNCTION :: "node_class \<Rightarrow> string" where
  "FUNCTION LoadBAGELModel = ''load_model''"
| "FUNCTION BagelPrompt = ''input_text''"
| "FUNCTION LoadEditImage = ''input_image''"
| "FUNCTION ImageGeneration = ''generate''"
| "FUNCTION ImageThinkGeneration = ''generate''"
| "FUNCTION ImageEditing = ''editing''"
| "FUNCTION ImageThinkEditing = ''editing''"
| "FUNCTION ImageUnderstanding = ''understanding''"

text \<open>
  The parameters of that method after \<^verbatim>\<open>self\<close>, as its \<^verbatim>\<open>def\<close> line lists them. None
  has a default, and no method takes \<^verbatim>\<open>**kwargs\<close>.
\<close>

fun parameters :: "node_class \<Rightarrow> string list" where
  "parameters LoadBAGELModel = [''model_path'']"
| "parameters BagelPrompt = [''text'']"
| "parameters LoadEditImage = [''image_path'']"
| "parameters ImageGeneration =
     [''model'', ''vae_model'', ''tokenizer'', ''vae_transform'', ''vit_transform'',
      ''new_token_ids'', ''prompt'', ''image_ratio'', ''seed'', ''cfg_text_scale'',
      ''cfg_img_scale'', ''cfg_interval'', ''timestep_shift'', ''num_timesteps'',
      ''cfg_renorm_min'', ''cfg_renorm_type'', ''text_temperature'']"
| "parameters ImageThinkGeneration =
     [''model'', ''vae_model'', ''tokenizer'', ''vae_transform'', ''vit_transform'',
      ''new_token_ids'', ''prompt'', ''seed'', ''max_think_token_n'', ''cfg_text_scale'',
      ''cfg_img_scale'', ''timestep_shift'', ''num_timesteps'', ''cfg_renorm_min'',
      ''cfg_interval'', ''cfg_renorm_type'', ''text_temperature'']"
| "parameters ImageEditing =
     [''model'', ''vae_model'', ''tokenizer'', ''vae_transform'', ''vit_transform'',
      ''new_token_ids'', ''prompt'', ''image'', ''seed'', ''cfg_text_scale'',
      ''cfg_img_scale'', ''timestep_shift'', ''num_timesteps'', ''cfg_renorm_min'']"
| "parameters ImageThinkEditing =
     [''model'', ''vae_model'', ''tokenizer'', ''vae_transform'', ''vit_transform'',
      ''new_token_ids'', ''prompt'', ''image'', ''seed'', ''max_think_token_n'',
      ''cfg_text_scale'', ''cfg_img_scale'', ''timestep_shift'', ''num_timesteps'',
      ''cfg_renorm_min'']"
| "parameters ImageUnderstanding =
     [''model'', ''vae_model'', ''tokenizer'', ''vae_transform'', ''vit_transform'',
      ''new_token_ids'', ''prompt'', ''image'', ''seed'', ''max_think_token_n'']"

text \<open>
  Python's binding of a call \<^verbatim>\<open>f(**kwargs)\<close> to parameters without defaults: the first
  keyword that is no parameter raises TypeError (unexpected keyword argument); otherwise
  the parameters left without a value raise TypeError (missing arguments); otherwise
  every parameter is bound, in the order of the parameter list.
\<close>

definition bind_keywords :: "string list \<Rightarrow> dict \<Rightarrow> pyerr + dict" where
  "bind_keywords params kwargs =
     (case filter (\<lambda>k. k \<notin> set params) (map fst kwargs) of
        k # _ \<Rightarrow> Inl (UnexpectedKeyword k)
      | [] \<Rightarrow>
          (case filter (\<lambda>p. map_of kwargs p = None) params of
             [] \<Rightarrow> Inr (List.map_filter (\<lambda>p. map_option (Pair p) (map_of kwargs p)) params)
           | missing \<Rightarrow> Inl (MissingArguments missing)))"

text \<open>
  The host's call of a node: one keyword argument per required input of the schema,
  handed to the method \<^verbatim>\<open>FUNCTION\<close> names.
\<close>

definition host_call :: "node_class \<Rightarrow> (string \<Rightarrow> pyval) \<Rightarrow> pyerr + dict" where
  "host_call c input_value =
     bind_keywords (parameters c) (map (\<lambda>k. (k, input_value k)) (INPUT_TYPES_required c))"

section \<open>The common shape of the dispatch functions\<close>

text \<open>
  Not in the source, where the five functions are written out one by one: the shape
  they share, used to reason about all of them at once. \<open>getitems\<close> reads the keys off the
  result mapping in order and stops at the first one that is missing; \<open>seeded_env\<close> is the
  generator state the eight seeding lines leave when none of them raises.
\<close>

fun getitems :: "dict \<Rightarrow> string list \<Rightarrow> pyerr + pyval list" where
  "getitems d [] = Inr []"
| "getitems d (k # ks) =
     (case getitem d k of
        Inl e \<Rightarrow> Inl e
      | Inr v \<Rightarrow> (case getitems d ks of Inl e \<Rightarrow> Inl e | Inr vs \<Rightarrow> Inr (v # vs)))"

definition dispatch ::
  "'g platform \<Rightarrow> pyval list \<Rightarrow> int \<Rightarrow> dict \<Rightarrow> string list \<Rightarrow> ('g world, pyval list) prog" where
  "dispatch P inferencer seed kwargs keys =
     py_bind (reseed P seed) (\<lambda>_.
     py_bind (inferencer_call P inferencer kwargs) (\<lambda>output_dict.
     py_lift (getitems output_dict keys)))"

definition seeded_env :: "'g platform \<Rightarrow> int \<Rightarrow> 'g rng_env \<Rightarrow> 'g rng_env" where
  "seeded_env P s e =
     e\<lparr>py_random := random_seeded P s,
       np_random := numpy_seeded P s,
       torch_default := torch_seeded P s,
       torch_cuda := (if cuda_is_available P then cuda_seeded P s else torch_cuda e),
       cudnn_deterministic := True,
       cudnn_benchmark := False\<rparr>"

section \<open>What is observed of a dispatch\<close>

text \<open>
  A row of the hyperparameter table: the CFG interval and the renormalisation type the
  keyword arguments carry, and the \<^verbatim>\<open>think\<close> flag (\<open>None\<close> when the call passes none).
\<close>

definition table_row :: "dict \<Rightarrow> pyval \<Rightarrow> pyval \<Rightarrow> pyval option \<Rightarrow> bool" where
  "table_row kwargs interval renorm think =
     (map_of kwargs ''cfg_interval'' = Some interval \<and>
      map_of kwargs ''cfg_renorm_type'' = Some renorm \<and>
      map_of kwargs ''think'' = think)"

text \<open>
  The generators of \<^verbatim>\<open>random\<close>, \<^verbatim>\<open>numpy.random\<close> and torch as a call found them, and the
  next \<open>n\<close> values each of them would give under a stepping function \<open>nxt\<close>.
\<close>

definition generators :: "'g invocation \<Rightarrow> 'g \<times> 'g \<times> 'g" where
  "generators call =
     (py_random (inv_env call), np_random (inv_env call), torch_default (inv_env call))"

fun draws :: "('g \<Rightarrow> 'd \<times> 'g) \<Rightarrow> nat \<Rightarrow> 'g \<Rightarrow> 'd list" where
  "draws nxt 0 g = []"
| "draws nxt (Suc n) g = (case nxt g of (d, g') \<Rightarrow> d # draws nxt n g')"

definition next_values :: "('g \<Rightarrow> 'd \<times> 'g) \<Rightarrow> nat \<Rightarrow> 'g invocation \<Rightarrow> 'd list \<times> 'd list \<times> 'd list" where
  "next_values nxt n call =
     (draws nxt n (py_random (inv_env call)),
      draws nxt n (np_random (inv_env call)),
      draws nxt n (torch_default (inv_env call)))"

text \<open>What a call hands to the inferencer and the three generators it finds.\<close>

definition request :: "'g invocation \<Rightarrow> pyval list \<times> dict \<times> ('g \<times> 'g \<times> 'g)" where
  "request call = (inv_handles call, inv_kwargs call, generators call)"

text \<open>
  Two runs of the same statement, started in the states \<open>w1\<close> and \<open>w2\<close>, agree: they make
  the same requests with the same generators, whose next values agree, and they return
  the same when the CUDA generators agree too (they do when CUDA is available, since then
  they are reseeded).
\<close>

definition same_run ::
  "'g platform \<Rightarrow> ('g \<Rightarrow> 'd \<times> 'g) \<Rightarrow> nat \<Rightarrow> ('g world, 'a) prog \<Rightarrow> 'g world \<Rightarrow> 'g world \<Rightarrow> bool" where
  "same_run P nxt n f w1 w2 =
     (map request (calls_made f w1) = map request (calls_made f w2) \<and>
      map (next_values nxt n) (calls_made f w1) = map (next_values nxt n) (calls_made f w2) \<and>
      (cuda_is_available P \<or> torch_cuda (rng w1) = torch_cuda (rng w2) \<longrightarrow>
         fst (f w1) = fst (f w2)))"

text \<open>
  A run makes exactly one call of the inferencer, and that call finds every generator in
  the state its library installs for \<open>seed\<close> itself.
\<close>

definition seeds_with :: "'g platform \<Rightarrow> int \<Rightarrow> ('g world, 'a) prog \<Rightarrow> 'g world \<Rightarrow> bool" where
  "seeds_with P seed f w =
     (map generators (calls_made f w) =
        [(random_seeded P seed, numpy_seeded P seed, torch_seeded P seed)] \<and>
      (cuda_is_available P \<longrightarrow>
         map (\<lambda>call. torch_cuda (inv_env call)) (calls_made f w) = [cuda_seeded P seed]))"

text \<open>
  Whenever the inferencer's reply holds the keys \<open>before\<close> and lacks the key \<open>k\<close>, the run
  ends in \<open>KeyError k\<close>.
\<close>

definition missing_key_raises ::
  "('g world, 'a) prog \<Rightarrow> 'g world \<Rightarrow> string list \<Rightarrow> string \<Rightarrow> bool" where
  "missing_key_raises f w before k =
     (\<forall>call \<in> set (calls_made f w). \<forall>d.
        inv_reply call = Inr d \<longrightarrow> (\<forall>b \<in> set before. map_of d b \<noteq> None) \<longrightarrow>
        map_of d k = None \<longrightarrow> fst (f w) = Inl (KeyError k))"

text \<open>
  A test double: a platform whose generator states are the seeds themselves and whose
  inferencer answers every call with \<open>reply\<close>; and a state in which nothing has been
  seeded or called yet.
\<close>

definition mock_platform :: "bool \<Rightarrow> (pyerr + dict) \<Rightarrow> int platform" where
  "mock_platform cuda reply =
     \<lparr>cuda_is_available = cuda,
      random_seeded = (\<lambda>s. s),
      numpy_seeded = (\<lambda>s. s),
      torch_seeded = (\<lambda>s. s),
      cuda_seeded = (\<lambda>s. s),
      inferencer_run = (\<lambda>inferencer kwargs e. (reply, e))\<rparr>"

definition fresh_world :: "int world" where
  "fresh_world =
     \<lparr>rng = \<lparr>py_random = - 1, np_random = - 1, torch_default = - 1, torch_cuda = - 1,
             cudnn_deterministic = False, cudnn_benchmark = True\<rparr>,
      inferencer_calls = []\<rparr>"

text \<open>
  One run of each dispatch node on the test double, with the handles numbered 1 to 6, the
  defaults of the input schema for the numeric fields, and \<^verbatim>\<open>"local"\<close> chosen as
  renormalisation type.
\<close>

definition demo_generation :: "bool \<Rightarrow> pyerr + dict \<Rightarrow> int \<Rightarrow> (int world, pyval list) prog" where
  "demo_generation cuda reply seed =
     ImageGeneration_generate (mock_platform cuda reply)
       (PObj 1) (PObj 2) (PObj 3) (PObj 4) (PObj 5) (PObj 6)
       (PStr ''a car made of small cars'') (PStr ''1:1'') seed (PFloat 4.0) (PFloat 2.0)
       (PFloat 0.4) (PFloat 3.0) (PInt 50) (PFloat 1.0) (PStr ''local'') (PFloat 0.3)"

definition demo_think_generation ::
  "bool \<Rightarrow> pyerr + dict \<Rightarrow> int \<Rightarrow> (int world, pyval list) prog" where
  "demo_think_generation cuda reply seed =
     ImageThinkGeneration_generate (mock_platform cuda reply)
       (PObj 1) (PObj 2) (PObj 3) (PObj 4) (PObj 5) (PObj 6)
       (PStr ''a car made of small cars'') seed (PInt 1000) (PFloat 4.0) (PFloat 2.0)
       (PFloat 3.0) (PInt 50) (PFloat 1.0) (PFloat 0.4) (PStr ''local'') (PFloat 0.3)"

definition demo_editing :: "bool \<Rightarrow> pyerr + dict \<Rightarrow> int \<Rightarrow> (int world, pyval list) prog" where
  "demo_editing cuda reply seed =
     ImageEditing_editing (mock_platform cuda reply)
       (PObj 1) (PObj 2) (PObj 3) (PObj 4) (PObj 5) (PObj 6)
       (PStr ''make it night'') (PStr ''test_images/women.jpg'') seed (PFloat 4.0)
       (PFloat 2.0) (PFloat 3.0) (PInt 50) (PFloat 1.0)"

definition demo_think_editing ::
  "bool \<Rightarrow> pyerr + dict \<Rightarrow> int \<Rightarrow> (int world, pyval list) prog" where
  "demo_think_editing cuda reply seed =
     ImageThinkEditing_editing (mock_platform cuda reply)
       (PObj 1) (PObj 2) (PObj 3) (PObj 4) (PObj 5) (PObj 6)
       (PStr ''make it night'') (PStr ''test_images/women.jpg'') seed (PInt 1000)
       (PFloat 4.0) (PFloat 2.0) (PFloat 3.0) (PInt 50) (PFloat 1.0)"

definition demo_understanding ::
  "bool \<Rightarrow> pyerr + dict \<Rightarrow> int \<Rightarrow> pyval \<Rightarrow> (int world, pyval list) prog" where
  "demo_understanding cuda reply seed max_think_token_n =
     ImageUnderstanding_understanding (mock_platform cuda reply)
       (PObj 1) (PObj 2) (PObj 3) (PObj 4) (PObj 5) (PObj 6)
       (PStr ''what is in the picture'') (PStr ''test_images/women.jpg'') seed
       max_think_token_n"

definition full_reply :: "pyerr + dict" where
  "full_reply = Inr [(''image'', PObj 7), (''text'', PStr ''a thought'')]"

section \<open>Properties\<close>

subsection \<open>Parameter capture\<close>

text \<open>
  C8. For every string, the empty one and ones with special characters included, the
  prompt capture node and the image-path capture node return exactly that string, as the
  only element of their result tuple, and leave the state they ran in as it was.
\<close>

theorem capture_nodes_identity:
  "input_text (PStr str) w = (Inr [PStr str], w) \<and>
   input_image (PStr str) w = (Inr [PStr str], w)"
  by (simp add: input_text_def input_image_def py_return_def)

subsection \<open>The dispatch functions and their common shape\<close>

lemma reseed_ok:
  "0 \<le> s \<Longrightarrow> s < 2 ^ 32 \<Longrightarrow> reseed P s w = (Inr (), w\<lparr>rng := seeded_env P s (rng w)\<rparr>)"
  by (simp add: reseed_def py_bind_def py_return_def random_seed_def np_random_seed_def
      torch_manual_seed_def torch_cuda_manual_seed_def torch_cuda_manual_seed_all_def
      set_cudnn_deterministic_def set_cudnn_benchmark_def seeded_env_def)

lemma reseed_rejected:
  "\<not> (0 \<le> s \<and> s < 2 ^ 32) \<Longrightarrow>
   reseed P s w =
     (Inl (ValueError ''Seed must be between 0 and 2**32 - 1''),
      w\<lparr>rng := (rng w)\<lparr>py_random := random_seeded P s\<rparr>\<rparr>)"
  by (auto simp add: reseed_def py_bind_def random_seed_def np_random_seed_def)

lemma dispatch_ok:
  assumes "0 \<le> s" "s < 2 ^ 32"
  shows "dispatch P h s kw keys w =
     (case inferencer_run P h kw (seeded_env P s (rng w)) of
        (reply, env') \<Rightarrow>
          ((case reply of Inl e \<Rightarrow> Inl e | Inr d \<Rightarrow> getitems d keys),
           \<lparr>rng = env',
            inferencer_calls = inferencer_calls w @
              [\<lparr>inv_handles = h, inv_kwargs = kw, inv_env = seeded_env P s (rng w),
                inv_reply = reply\<rparr>]\<rparr>))"
  using assms
  by (simp add: dispatch_def py_bind_def reseed_ok inferencer_call_def py_lift_def
      split: prod.splits sum.splits)

lemma dispatch_rejected:
  assumes "\<not> (0 \<le> s \<and> s < 2 ^ 32)"
  shows "dispatch P h s kw keys w =
     (Inl (ValueError ''Seed must be between 0 and 2**32 - 1''),
      w\<lparr>rng := (rng w)\<lparr>py_random := random_seeded P s\<rparr>\<rparr>)"
  using assms by (simp add: dispatch_def py_bind_def reseed_rejected)

lemma ImageGeneration_generate_dispatch:
  "ImageGeneration_generate P model vae_model tokenizer vae_transform vit_transform
     new_token_ids prompt image_ratio seed cfg_text_scale cfg_img_scale cfg_interval
     timestep_shift num_timesteps cfg_renorm_min cfg_renorm_type text_temperature =
   dispatch P [model, vae_model, tokenizer, vae_transform, vit_transform, new_token_ids] seed
     [(''text'', prompt), (''cfg_text_scale'', cfg_text_scale),
      (''cfg_img_scale'', cfg_img_scale),
      (''cfg_interval'', PList [PFloat 0.4, PFloat 1.0]),
      (''timestep_shift'', timestep_shift), (''num_timesteps'', num_timesteps),
      (''cfg_renorm_min'', cfg_renorm_min), (''cfg_renorm_type'', cfg_renorm_type)]
     [''image'']"
  by (rule ext)
    (simp add: ImageGeneration_generate_def dispatch_def InterleaveInferencer_def
      py_bind_def py_lift_def py_return_def split: prod.splits sum.splits)

lemma ImageThinkGeneration_generate_dispatch:
  "ImageThinkGeneration_generate P model vae_model tokenizer vae_transform vit_transform
     new_token_ids prompt seed max_think_token_n cfg_text_scale cfg_img_scale
     timestep_shift num_timesteps cfg_renorm_min cfg_interval cfg_renorm_type
     text_temperature =
   dispatch P [model, vae_model, tokenizer, vae_transform, vit_transform, new_token_ids] seed
     [(''text'', prompt), (''think'', PBool True),
      (''max_think_token_n'', max_think_token_n), (''do_sample'', PBool False),
      (''cfg_text_scale'', cfg_text_scale), (''cfg_img_scale'', cfg_img_scale),
      (''cfg_interval'', PList [PFloat 0.4, PFloat 1.0]),
      (''timestep_shift'', timestep_shift), (''num_timesteps'', num_timesteps),
      (''cfg_renorm_min'', cfg_renorm_min), (''cfg_renorm_type'', PStr ''global'')]
     [''image'', ''text'']"
  by (rule ext)
    (simp add: ImageThinkGeneration_generate_def dispatch_def InterleaveInferencer_def
      py_bind_def py_lift_def py_return_def split: prod.splits sum.splits)

lemma ImageEditing_editing_dispatch:
  "ImageEditing_editing P model vae_model tokenizer vae_transform vit_transform
     new_token_ids prompt image_in seed cfg_text_scale cfg_img_scale timestep_shift
     num_timesteps cfg_renorm_min =
   dispatch P [model, vae_model, tokenizer, vae_transform, vit_transform, new_token_ids] seed
     [(''image'', image_in), (''text'', prompt), (''cfg_text_scale'', cfg_text_scale),
      (''cfg_img_scale'', cfg_img_scale),
      (''cfg_interval'', PList [PFloat 0.0, PFloat 1.0]),
      (''timestep_shift'', timestep_shift), (''num_timesteps'', num_timesteps),
      (''cfg_renorm_min'', cfg_renorm_min), (''cfg_renorm_type'', PStr ''text_channel'')]
     [''image'']"
  by (rule ext)
    (simp add: ImageEditing_editing_def dispatch_def InterleaveInferencer_def
      py_bind_def py_lift_def py_return_def split: prod.splits sum.splits)

lemma ImageThinkEditing_editing_dispatch:
  "ImageThinkEditing_editing P model vae_model tokenizer vae_transform vit_transform
     new_token_ids prompt image_in seed max_think_token_n cfg_text_scale cfg_img_scale
     timestep_shift num_timesteps cfg_renorm_min =
   dispatch P [model, vae_model, tokenizer, vae_transform, vit_transform, new_token_ids] seed
     [(''image'', image_in), (''text'', prompt), (''think'', PBool True),
      (''max_think_token_n'', max_think_token_n), (''do_sample'', PBool False),
      (''cfg_text_scale'', cfg_text_scale), (''cfg_img_scale'', cfg_img_scale),
      (''cfg_interval'', PList [PFloat 0.0, PFloat 1.0]),
      (''timestep_shift'', timestep_shift), (''num_timesteps'', num_timesteps),
      (''cfg_renorm_min'', cfg_renorm_min), (''cfg_renorm_type'', PStr ''text_channel'')]
     [''image'', ''text'']"
  by (rule ext)
    (simp add: ImageThinkEditing_editing_def dispatch_def InterleaveInferencer_def
      py_bind_def py_lift_def py_return_def split: prod.splits sum.splits)

lemma ImageUnderstanding_understanding_dispatch:
  "ImageUnderstanding_understanding P model vae_model tokenizer vae_transform vit_transform
     new_token_ids prompt image_in seed max_think_token_n =
   dispatch P [model, vae_model, tokenizer, vae_transform, vit_transform, new_token_ids] seed
     [(''image'', image_in), (''text'', prompt), (''understanding_output'', PBool True),
      (''max_think_token_n'', PInt 1000), (''do_sample'', PBool False)]
     [''text'']"
  by (rule ext)
    (simp add: ImageUnderstanding_understanding_def dispatch_def InterleaveInferencer_def
      py_bind_def py_lift_def py_return_def split: prod.splits sum.splits)

lemma calls_made_dispatch:
  "calls_made (dispatch P h s kw keys) w =
     (if 0 \<le> s \<and> s < 2 ^ 32
      then [\<lparr>inv_handles = h, inv_kwargs = kw, inv_env = seeded_env P s (rng w),
             inv_reply = fst (inferencer_run P h kw (seeded_env P s (rng w)))\<rparr>]
      else [])"
proof (cases "0 \<le> s \<and> s < 2 ^ 32")
  case True
  then show ?thesis
    by (simp add: calls_made_def dispatch_ok split: prod.splits)
next
  case False
  then show ?thesis
    by (simp add: calls_made_def dispatch_rejected)
qed

lemma result_dispatch:
  "fst (dispatch P h s kw keys w) =
     (if 0 \<le> s \<and> s < 2 ^ 32
      then (case fst (inferencer_run P h kw (seeded_env P s (rng w))) of
              Inl e \<Rightarrow> Inl e
            | Inr d \<Rightarrow> getitems d keys)
      else Inl (ValueError ''Seed must be between 0 and 2**32 - 1''))"
proof (cases "0 \<le> s \<and> s < 2 ^ 32")
  case True
  then show ?thesis
    by (simp add: dispatch_ok split: prod.splits)
next
  case False
  then show ?thesis
    by (auto simp add: dispatch_rejected)
qed

lemma seeded_env_explicit:
  "seeded_env P s e =
     \<lparr>py_random = random_seeded P s,
      np_random = numpy_seeded P s,
      torch_default = torch_seeded P s,
      torch_cuda = (if cuda_is_available P then cuda_seeded P s else torch_cuda e),
      cudnn_deterministic = True,
      cudnn_benchmark = False\<rparr>"
  by (cases e) (simp add: seeded_env_def)

lemma same_run_dispatch: "same_run P nxt n (dispatch P h s kw keys) w1 w2"
  by (auto simp add: same_run_def calls_made_dispatch result_dispatch request_def
      generators_def next_values_def seeded_env_explicit)

lemma seeds_with_dispatch:
  "0 \<le> s \<Longrightarrow> s \<le> 1000000 \<Longrightarrow> seeds_with P s (dispatch P h s kw keys) w"
  by (simp add: seeds_with_def calls_made_dispatch generators_def seeded_env_def)

lemma getitems_missing:
  "map_of d k = None \<Longrightarrow> \<forall>b \<in> set before. map_of d b \<noteq> None \<Longrightarrow>
   getitems d (before @ k # rest) = Inl (KeyError k)"
  by (induction before) (auto simp add: getitem_def split: option.splits sum.splits)

lemma missing_key_raises_dispatch:
  "missing_key_raises (dispatch P h s kw (before @ k # rest)) w before k"
  by (auto simp add: missing_key_raises_def calls_made_dispatch result_dispatch
      getitems_missing split: if_splits)


lemmas dispatch_shape =
  ImageGeneration_generate_dispatch ImageThinkGeneration_generate_dispatch
  ImageEditing_editing_dispatch ImageThinkEditing_editing_dispatch
  ImageUnderstanding_understanding_dispatch

lemmas demo_defs =
  demo_generation_def demo_think_generation_def demo_editing_def demo_think_editing_def
  demo_understanding_def

lemma calls_made_mock:
  "calls_made (dispatch (mock_platform cuda reply) h s kw keys) fresh_world =
     (if 0 \<le> s \<and> s < 2 ^ 32
      then [\<lparr>inv_handles = h, inv_kwargs = kw,
             inv_env = \<lparr>py_random = s, np_random = s, torch_default = s,
                        torch_cuda = (if cuda then s else - 1),
                        cudnn_deterministic = True, cudnn_benchmark = False\<rparr>,
             inv_reply = reply\<rparr>]
      else [])"
  by (simp add: calls_made_dispatch seeded_env_explicit mock_platform_def fresh_world_def)

subsection \<open>Hyperparameters\<close>

text \<open>
  C1. Every call of the inferencer that one of the four image-producing dispatch
  functions makes carries the hyperparameters of its row of the table: Generation the
  interval [0.4, 1.0], the renormalisation type the caller chose and no \<^verbatim>\<open>think\<close>
  argument; Think-Generation [0.4, 1.0], \<^verbatim>\<open>"global"\<close> and \<^verbatim>\<open>think=True\<close>; Editing
  [0.0, 1.0], \<^verbatim>\<open>"text_channel"\<close> and no \<^verbatim>\<open>think\<close> argument; Think-Editing [0.0, 1.0],
  \<^verbatim>\<open>"text_channel"\<close> and \<^verbatim>\<open>think=True\<close>.
\<close>

theorem dispatch_hyperparameters_match_table:
  "(\<forall>call \<in> set (calls_made (ImageGeneration_generate P model vae_model tokenizer vae_transform
          vit_transform new_token_ids prompt image_ratio seed cfg_text_scale cfg_img_scale
          cfg_interval timestep_shift num_timesteps cfg_renorm_min cfg_renorm_type
          text_temperature) w).
      table_row (inv_kwargs call) (PList [PFloat 0.4, PFloat 1.0]) cfg_renorm_type None) \<and>
   (\<forall>call \<in> set (calls_made (ImageThinkGeneration_generate P model vae_model tokenizer vae_transform
          vit_transform new_token_ids prompt seed max_think_token_n cfg_text_scale
          cfg_img_scale timestep_shift num_timesteps cfg_renorm_min cfg_interval
          cfg_renorm_type text_temperature) w).
      table_row (inv_kwargs call) (PList [PFloat 0.4, PFloat 1.0]) (PStr ''global'')
        (Some (PBool True))) \<and>
   (\<forall>call \<in> set (calls_made (ImageEditing_editing P model vae_model tokenizer vae_transform
          vit_transform new_token_ids prompt image_in seed cfg_text_scale cfg_img_scale
          timestep_shift num_timesteps cfg_renorm_min) w).
      table_row (inv_kwargs call) (PList [PFloat 0.0, PFloat 1.0]) (PStr ''text_channel'')
        None) \<and>
   (\<forall>call \<in> set (calls_made (ImageThinkEditing_editing P model vae_model tokenizer vae_transform
          vit_transform new_token_ids prompt image_in seed max_think_token_n cfg_text_scale
          cfg_img_scale timestep_shift num_timesteps cfg_renorm_min) w).
      table_row (inv_kwargs call) (PList [PFloat 0.0, PFloat 1.0]) (PStr ''text_channel'')
        (Some (PBool True)))"
  by (simp add: dispatch_shape calls_made_dispatch table_row_def)

theorem dispatch_hyperparameters_match_table_witness:
  "length (calls_made (demo_generation True full_reply 42) fresh_world) = 1 \<and>
   list_all (\<lambda>call. table_row (inv_kwargs call) (PList [PFloat 0.4, PFloat 1.0])
       (PStr ''local'') None)
     (calls_made (demo_generation True full_reply 42) fresh_world) \<and>
   length (calls_made (demo_think_generation True full_reply 42) fresh_world) = 1 \<and>
   list_all (\<lambda>call. table_row (inv_kwargs call) (PList [PFloat 0.4, PFloat 1.0])
       (PStr ''global'') (Some (PBool True)))
     (calls_made (demo_think_generation True full_reply 42) fresh_world) \<and>
   length (calls_made (demo_editing True full_reply 42) fresh_world) = 1 \<and>
   list_all (\<lambda>call. table_row (inv_kwargs call) (PList [PFloat 0.0, PFloat 1.0])
       (PStr ''text_channel'') None)
     (calls_made (demo_editing True full_reply 42) fresh_world) \<and>
   length (calls_made (demo_think_editing True full_reply 42) fresh_world) = 1 \<and>
   list_all (\<lambda>call. table_row (inv_kwargs call) (PList [PFloat 0.0, PFloat 1.0])
       (PStr ''text_channel'') (Some (PBool True)))
     (calls_made (demo_think_editing True full_reply 42) fresh_world)"
proof -
  have len:
    "length (calls_made (demo_generation True full_reply 42) fresh_world) = 1"
    "length (calls_made (demo_think_generation True full_reply 42) fresh_world) = 1"
    "length (calls_made (demo_editing True full_reply 42) fresh_world) = 1"
    "length (calls_made (demo_think_editing True full_reply 42) fresh_world) = 1"
    by (simp_all add: demo_defs dispatch_shape calls_made_mock)
  have rows:
    "list_all (\<lambda>call. table_row (inv_kwargs call) (PList [PFloat 0.4, PFloat 1.0])
         (PStr ''local'') None)
       (calls_made (demo_generation True full_reply 42) fresh_world)"
    "list_all (\<lambda>call. table_row (inv_kwargs call) (PList [PFloat 0.4, PFloat 1.0])
         (PStr ''global'') (Some (PBool True)))
       (calls_made (demo_think_generation True full_reply 42) fresh_world)"
    "list_all (\<lambda>call. table_row (inv_kwargs call) (PList [PFloat 0.0, PFloat 1.0])
         (PStr ''text_channel'') None)
       (calls_made (demo_editing True full_reply 42) fresh_world)"
    "list_all (\<lambda>call. table_row (inv_kwargs call) (PList [PFloat 0.0, PFloat 1.0])
         (PStr ''text_channel'') (Some (PBool True)))
       (calls_made (demo_think_editing True full_reply 42) fresh_world)"
    unfolding demo_defs list_all_iff
    by (rule dispatch_hyperparameters_match_table [THEN conjunct1],
        rule dispatch_hyperparameters_match_table [THEN conjunct2, THEN conjunct1],
        rule dispatch_hyperparameters_match_table
          [THEN conjunct2, THEN conjunct2, THEN conjunct1],
        rule dispatch_hyperparameters_match_table
          [THEN conjunct2, THEN conjunct2, THEN conjunct2])
  from len rows show ?thesis by blast
qed

subsection \<open>Seeding\<close>

lemma result_mock:
  "fst (dispatch (mock_platform cuda reply) h s kw keys w) =
     (if 0 \<le> s \<and> s < 2 ^ 32
      then (case reply of Inl e \<Rightarrow> Inl e | Inr d \<Rightarrow> getitems d keys)
      else Inl (ValueError ''Seed must be between 0 and 2**32 - 1''))"
  by (simp add: result_dispatch mock_platform_def)

text \<open>
  C5. For each of the five dispatch functions, two runs with the same seed and the same
  other arguments, started in any two states of the generators (the second may be the
  state the first run left), hand the inferencer the same handles and keyword arguments
  and the same generators of \<^verbatim>\<open>random\<close>, \<^verbatim>\<open>numpy.random\<close> and torch, so that the next
  values drawn from them agree; and both runs return the same whenever the CUDA
  generators agree as well.
\<close>

theorem dispatch_reseed_deterministic:
  "same_run P nxt n (ImageGeneration_generate P model vae_model tokenizer vae_transform
        vit_transform new_token_ids prompt image_ratio seed cfg_text_scale cfg_img_scale
        cfg_interval timestep_shift num_timesteps cfg_renorm_min cfg_renorm_type
        text_temperature) w1 w2 \<and>
   same_run P nxt n (ImageThinkGeneration_generate P model vae_model tokenizer vae_transform
        vit_transform new_token_ids prompt seed max_think_token_n cfg_text_scale
        cfg_img_scale timestep_shift num_timesteps cfg_renorm_min cfg_interval
        cfg_renorm_type text_temperature) w1 w2 \<and>
   same_run P nxt n (ImageEditing_editing P model vae_model tokenizer vae_transform
        vit_transform new_token_ids prompt image_in seed cfg_text_scale cfg_img_scale
        timestep_shift num_timesteps cfg_renorm_min) w1 w2 \<and>
   same_run P nxt n (ImageThinkEditing_editing P model vae_model tokenizer vae_transform
        vit_transform new_token_ids prompt image_in seed max_think_token_n cfg_text_scale
        cfg_img_scale timestep_shift num_timesteps cfg_renorm_min) w1 w2 \<and>
   same_run P nxt n (ImageUnderstanding_understanding P model vae_model tokenizer vae_transform
        vit_transform new_token_ids prompt image_in seed max_think_token_n) w1 w2"
  by (simp add: dispatch_shape same_run_dispatch)


theorem dispatch_reseed_deterministic_witness:
  "fst (demo_generation True full_reply 42 fresh_world) = Inr [PObj 7] \<and>
   fst (demo_generation True full_reply 42
          (snd (demo_generation True full_reply 42 fresh_world))) = Inr [PObj 7] \<and>
   map (next_values (\<lambda>g. (g, g + 1)) 3) (calls_made (demo_generation True full_reply 42) fresh_world) =
     [([42, 43, 44], [42, 43, 44], [42, 43, 44])] \<and>
   map (next_values (\<lambda>g. (g, g + 1)) 3)
     (calls_made (demo_generation True full_reply 42)
        (snd (demo_generation True full_reply 42 fresh_world))) =
     [([42, 43, 44], [42, 43, 44], [42, 43, 44])] \<and>
   fst (demo_think_generation True full_reply 42 fresh_world) = Inr [PObj 7, PStr ''a thought''] \<and>
   fst (demo_think_generation True full_reply 42
          (snd (demo_think_generation True full_reply 42 fresh_world))) = Inr [PObj 7, PStr ''a thought''] \<and>
   map (next_values (\<lambda>g. (g, g + 1)) 3) (calls_made (demo_think_generation True full_reply 42) fresh_world) =
     [([42, 43, 44], [42, 43, 44], [42, 43, 44])] \<and>
   map (next_values (\<lambda>g. (g, g + 1)) 3)
     (calls_made (demo_think_generation True full_reply 42)
        (snd (demo_think_generation True full_reply 42 fresh_world))) =
     [([42, 43, 44], [42, 43, 44], [42, 43, 44])] \<and>
   fst (demo_editing True full_reply 42 fresh_world) = Inr [PObj 7] \<and>
   fst (demo_editing True full_reply 42
          (snd (demo_editing True full_reply 42 fresh_world))) = Inr [PObj 7] \<and>
   map (next_values (\<lambda>g. (g, g + 1)) 3) (calls_made (demo_editing True full_reply 42) fresh_world) =
     [([42, 43, 44], [42, 43, 44], [42, 43, 44])] \<and>
   map (next_values (\<lambda>g. (g, g + 1)) 3)
     (calls_made (demo_editing True full_reply 42)
        (snd (demo_editing True full_reply 42 fresh_world))) =
     [([42, 43, 44], [42, 43, 44], [42, 43, 44])] \<and>
   fst (demo_think_editing True full_reply 42 fresh_world) = Inr [PObj 7, PStr ''a thought''] \<and>
   fst (demo_think_editing True full_reply 42
          (snd (demo_think_editing True full_reply 42 fresh_world))) = Inr [PObj 7, PStr ''a thought''] \<and>
   map (next_values (\<lambda>g. (g, g + 1)) 3) (calls_made (demo_think_editing True full_reply 42) fresh_world) =
     [([42, 43, 44], [42, 43, 44], [42, 43, 44])] \<and>
   map (next_values (\<lambda>g. (g, g + 1)) 3)
     (calls_made (demo_think_editing True full_reply 42)
        (snd (demo_think_editing True full_reply 42 fresh_world))) =
     [([42, 43, 44], [42, 43, 44], [42, 43, 44])] \<and>
   fst (demo_understanding True full_reply 42 (PInt 1000) fresh_world) = Inr [PStr ''a thought''] \<and>
   fst (demo_understanding True full_reply 42 (PInt 1000)
          (snd (demo_understanding True full_reply 42 (PInt 1000) fresh_world))) = Inr [PStr ''a thought''] \<and>
   map (next_values (\<lambda>g. (g, g + 1)) 3) (calls_made (demo_understanding True full_reply 42 (PInt 1000)) fresh_world) =
     [([42, 43, 44], [42, 43, 44], [42, 43, 44])] \<and>
   map (next_values (\<lambda>g. (g, g + 1)) 3)
     (calls_made (demo_understanding True full_reply 42 (PInt 1000))
        (snd (demo_understanding True full_reply 42 (PInt 1000) fresh_world))) =
     [([42, 43, 44], [42, 43, 44], [42, 43, 44])]"
proof -
  have cuda: "cuda_is_available (mock_platform True full_reply)"
    by (simp add: mock_platform_def)
  have r0: "fst (demo_generation True full_reply 42 fresh_world) = Inr [PObj 7]"
    by (simp add: demo_defs dispatch_shape result_mock full_reply_def getitem_def)
  have d0: "map (next_values (\<lambda>g. (g, g + 1)) 3) (calls_made (demo_generation True full_reply 42) fresh_world) =
      [([42, 43, 44], [42, 43, 44], [42, 43, 44])]"
    by (simp add: demo_defs dispatch_shape calls_made_mock next_values_def numeral_3_eq_3)
  have "same_run (mock_platform True full_reply) (\<lambda>g. (g, g + 1)) 3
      (demo_generation True full_reply 42) fresh_world
      (snd (demo_generation True full_reply 42 fresh_world))"
    unfolding demo_defs by (rule dispatch_reseed_deterministic [THEN conjunct1])
  with cuda r0 d0 have s0:
    "fst (demo_generation True full_reply 42
          (snd (demo_generation True full_reply 42 fresh_world))) = Inr [PObj 7]"
    "map (next_values (\<lambda>g. (g, g + 1)) 3)
       (calls_made (demo_generation True full_reply 42)
          (snd (demo_generation True full_reply 42 fresh_world))) =
       [([42, 43, 44], [42, 43, 44], [42, 43, 44])]"
    by (simp_all add: same_run_def)
  have r1: "fst (demo_think_generation True full_reply 42 fresh_world) = Inr [PObj 7, PStr ''a thought'']"
    by (simp add: demo_defs dispatch_shape result_mock full_reply_def getitem_def)
  have d1: "map (next_values (\<lambda>g. (g, g + 1)) 3) (calls_made (demo_think_generation True full_reply 42) fresh_world) =
      [([42, 43, 44], [42, 43, 44], [42, 43, 44])]"
    by (simp add: demo_defs dispatch_shape calls_made_mock next_values_def numeral_3_eq_3)
  have "same_run (mock_platform True full_reply) (\<lambda>g. (g, g + 1)) 3
      (demo_think_generation True full_reply 42) fresh_world
      (snd (demo_think_generation True full_reply 42 fresh_world))"
    unfolding demo_defs by (rule dispatch_reseed_deterministic [THEN conjunct2, THEN conjunct1])
  with cuda r1 d1 have s1:
    "fst (demo_think_generation True full_reply 42
          (snd (demo_think_generation True full_reply 42 fresh_world))) = Inr [PObj 7, PStr ''a thought'']"
    "map (next_values (\<lambda>g. (g, g + 1)) 3)
       (calls_made (demo_think_generation True full_reply 42)
          (snd (demo_think_generation True full_reply 42 fresh_world))) =
       [([42, 43, 44], [42, 43, 44], [42, 43, 44])]"
    by (simp_all add: same_run_def)
  have r2: "fst (demo_editing True full_reply 42 fresh_world) = Inr [PObj 7]"
    by (simp add: demo_defs dispatch_shape result_mock full_reply_def getitem_def)
  have d2: "map (next_values (\<lambda>g. (g, g + 1)) 3) (calls_made (demo_editing True full_reply 42) fresh_world) =
      [([42, 43, 44], [42, 43, 44], [42, 43, 44])]"
    by (simp add: demo_defs dispatch_shape calls_made_mock next_values_def numeral_3_eq_3)
  have "same_run (mock_platform True full_reply) (\<lambda>g. (g, g + 1)) 3
      (demo_editing True full_reply 42) fresh_world
      (snd (demo_editing True full_reply 42 fresh_world))"
    unfolding demo_defs by (rule dispatch_reseed_deterministic [THEN conjunct2, THEN conjunct2, THEN conjunct1])
  with cuda r2 d2 have s2:
    "fst (demo_editing True full_reply 42
          (snd (demo_editing True full_reply 42 fresh_world))) = Inr [PObj 7]"
    "map (next_values (\<lambda>g. (g, g + 1)) 3)
       (calls_made (demo_editing True full_reply 42)
          (snd (demo_editing True full_reply 42 fresh_world))) =
       [([42, 43, 44], [42, 43, 44], [42, 43, 44])]"
    by (simp_all add: same_run_def)
  have r3: "fst (demo_think_editing True full_reply 42 fresh_world) = Inr [PObj 7, PStr ''a thought'']"
    by (simp add: demo_defs dispatch_shape result_mock full_reply_def getitem_def)
  have d3: "map (next_values (\<lambda>g. (g, g + 1)) 3) (calls_made (demo_think_editing True full_reply 42) fresh_world) =
      [([42, 43, 44], [42, 43, 44], [42, 43, 44])]"
    by (simp add: demo_defs dispatch_shape calls_made_mock next_values_def numeral_3_eq_3)
  have "same_run (mock_platform True full_reply) (\<lambda>g. (g, g + 1)) 3
      (demo_think_editing True full_reply 42) fresh_world
      (snd (demo_think_editing True full_reply 42 fresh_world))"
    unfolding demo_defs by (rule dispatch_reseed_deterministic [THEN conjunct2, THEN conjunct2, THEN conjunct2, THEN conjunct1])
  with cuda r3 d3 have s3:
    "fst (demo_think_editing True full_reply 42
          (snd (demo_think_editing True full_reply 42 fresh_world))) = Inr [PObj 7, PStr ''a thought'']"
    "map (next_values (\<lambda>g. (g, g + 1)) 3)
       (calls_made (demo_think_editing True full_reply 42)
          (snd (demo_think_editing True full_reply 42 fresh_world))) =
       [([42, 43, 44], [42, 43, 44], [42, 43, 44])]"
    by (simp_all add: same_run_def)
  have r4: "fst (demo_understanding True full_reply 42 (PInt 1000) fresh_world) = Inr [PStr ''a thought'']"
    by (simp add: demo_defs dispatch_shape result_mock full_reply_def getitem_def)
  have d4: "map (next_values (\<lambda>g. (g, g + 1)) 3) (calls_made (demo_understanding True full_reply 42 (PInt 1000)) fresh_world) =
      [([42, 43, 44], [42, 43, 44], [42, 43, 44])]"
    by (simp add: demo_defs dispatch_shape calls_made_mock next_values_def numeral_3_eq_3)
  have "same_run (mock_platform True full_reply) (\<lambda>g. (g, g + 1)) 3
      (demo_understanding True full_reply 42 (PInt 1000)) fresh_world
      (snd (demo_understanding True full_reply 42 (PInt 1000) fresh_world))"
    unfolding demo_defs by (rule dispatch_reseed_deterministic [THEN conjunct2, THEN conjunct2, THEN conjunct2, THEN conjunct2])
  with cuda r4 d4 have s4:
    "fst (demo_understanding True full_reply 42 (PInt 1000)
          (snd (demo_understanding True full_reply 42 (PInt 1000) fresh_world))) = Inr [PStr ''a thought'']"
    "map (next_values (\<lambda>g. (g, g + 1)) 3)
       (calls_made (demo_understanding True full_reply 42 (PInt 1000))
          (snd (demo_understanding True full_reply 42 (PInt 1000) fresh_world))) =
       [([42, 43, 44], [42, 43, 44], [42, 43, 44])]"
    by (simp_all add: same_run_def)
  from r0 r1 r2 r3 r4 d0 d1 d2 d3 d4 s0 s1 s2 s3 s4 show ?thesis
    by (intro conjI)
qed

text \<open>
  C6. For every seed from 0 to 1000000, 0 included, each of the five dispatch functions
  makes its one call of the inferencer with the generators of \<^verbatim>\<open>random\<close>,
  \<^verbatim>\<open>numpy.random\<close> and torch (and the CUDA generators, when CUDA is available) in exactly
  the state their library installs for that seed: seed 0 is seeded like any other value.
\<close>

theorem seed_used_literally:
  assumes "0 \<le> seed" and "seed \<le> 1000000"
  shows
  "seeds_with P seed (ImageGeneration_generate P model vae_model tokenizer vae_transform
        vit_transform new_token_ids prompt image_ratio seed cfg_text_scale cfg_img_scale
        cfg_interval timestep_shift num_timesteps cfg_renorm_min cfg_renorm_type
        text_temperature) w \<and>
   seeds_with P seed (ImageThinkGeneration_generate P model vae_model tokenizer vae_transform
        vit_transform new_token_ids prompt seed max_think_token_n cfg_text_scale
        cfg_img_scale timestep_shift num_timesteps cfg_renorm_min cfg_interval
        cfg_renorm_type text_temperature) w \<and>
   seeds_with P seed (ImageEditing_editing P model vae_model tokenizer vae_transform
        vit_transform new_token_ids prompt image_in seed cfg_text_scale cfg_img_scale
        timestep_shift num_timesteps cfg_renorm_min) w \<and>
   seeds_with P seed (ImageThinkEditing_editing P model vae_model tokenizer vae_transform
        vit_transform new_token_ids prompt image_in seed max_think_token_n cfg_text_scale
        cfg_img_scale timestep_shift num_timesteps cfg_renorm_min) w \<and>
   seeds_with P seed (ImageUnderstanding_understanding P model vae_model tokenizer vae_transform
        vit_transform new_token_ids prompt image_in seed max_think_token_n) w"
  using assms by (simp add: dispatch_shape seeds_with_dispatch)

theorem seed_used_literally_witness:
  "(0::int) \<le> 0 \<and> (0::int) \<le> 1000000 \<and>
   map generators (calls_made (demo_generation True full_reply 0) fresh_world) = [(0, 0, 0)] \<and>
   map (\<lambda>call. torch_cuda (inv_env call)) (calls_made (demo_generation True full_reply 0) fresh_world) = [0] \<and>
   map generators (calls_made (demo_think_generation True full_reply 0) fresh_world) = [(0, 0, 0)] \<and>
   map (\<lambda>call. torch_cuda (inv_env call)) (calls_made (demo_think_generation True full_reply 0) fresh_world) = [0] \<and>
   map generators (calls_made (demo_editing True full_reply 0) fresh_world) = [(0, 0, 0)] \<and>
   map (\<lambda>call. torch_cuda (inv_env call)) (calls_made (demo_editing True full_reply 0) fresh_world) = [0] \<and>
   map generators (calls_made (demo_think_editing True full_reply 0) fresh_world) = [(0, 0, 0)] \<and>
   map (\<lambda>call. torch_cuda (inv_env call)) (calls_made (demo_think_editing True full_reply 0) fresh_world) = [0] \<and>
   map generators (calls_made (demo_understanding True full_reply 0 (PInt 1000)) fresh_world) = [(0, 0, 0)] \<and>
   map (\<lambda>call. torch_cuda (inv_env call)) (calls_made (demo_understanding True full_reply 0 (PInt 1000)) fresh_world) = [0]"
proof -
  have lo: "(0::int) \<le> 0" and hi: "(0::int) \<le> 1000000"
    by simp_all
  have "seeds_with (mock_platform True full_reply) 0 (demo_generation True full_reply 0) fresh_world"
    unfolding demo_defs by (rule seed_used_literally [OF lo hi, THEN conjunct1])
  then have g0:
    "map generators (calls_made (demo_generation True full_reply 0) fresh_world) = [(0, 0, 0)]"
    "map (\<lambda>call. torch_cuda (inv_env call)) (calls_made (demo_generation True full_reply 0) fresh_world) = [0]"
    by (simp_all add: seeds_with_def mock_platform_def)
  have "seeds_with (mock_platform True full_reply) 0 (demo_think_generation True full_reply 0) fresh_world"
    unfolding demo_defs by (rule seed_used_literally [OF lo hi, THEN conjunct2, THEN conjunct1])
  then have g1:
    "map generators (calls_made (demo_think_generation True full_reply 0) fresh_world) = [(0, 0, 0)]"
    "map (\<lambda>call. torch_cuda (inv_env call)) (calls_made (demo_think_generation True full_reply 0) fresh_world) = [0]"
    by (simp_all add: seeds_with_def mock_platform_def)
  have "seeds_with (mock_platform True full_reply) 0 (demo_editing True full_reply 0) fresh_world"
    unfolding demo_defs by (rule seed_used_literally [OF lo hi, THEN conjunct2, THEN conjunct2, THEN conjunct1])
  then have g2:
    "map generators (calls_made (demo_editing True full_reply 0) fresh_world) = [(0, 0, 0)]"
    "map (\<lambda>call. torch_cuda (inv_env call)) (calls_made (demo_editing True full_reply 0) fresh_world) = [0]"
    by (simp_all add: seeds_with_def mock_platform_def)
  have "seeds_with (mock_platform True full_reply) 0 (demo_think_editing True full_reply 0) fresh_world"
    unfolding demo_defs by (rule seed_used_literally [OF lo hi, THEN conjunct2, THEN conjunct2, THEN conjunct2, THEN conjunct1])
  then have g3:
    "map generators (calls_made (demo_think_editing True full_reply 0) fresh_world) = [(0, 0, 0)]"
    "map (\<lambda>call. torch_cuda (inv_env call)) (calls_made (demo_think_editing True full_reply 0) fresh_world) = [0]"
    by (simp_all add: seeds_with_def mock_platform_def)
  have "seeds_with (mock_platform True full_reply) 0 (demo_understanding True full_reply 0 (PInt 1000)) fresh_world"
    unfolding demo_defs by (rule seed_used_literally [OF lo hi, THEN conjunct2, THEN conjunct2, THEN conjunct2, THEN conjunct2])
  then have g4:
    "map generators (calls_made (demo_understanding True full_reply 0 (PInt 1000)) fresh_world) = [(0, 0, 0)]"
    "map (\<lambda>call. torch_cuda (inv_env call)) (calls_made (demo_understanding True full_reply 0 (PInt 1000)) fresh_world) = [0]"
    by (simp_all add: seeds_with_def mock_platform_def)
  from lo hi g0 g1 g2 g3 g4 show ?thesis
    by (intro conjI)
qed

subsection \<open>Inputs without influence\<close>

text \<open>
  C9. Two calls of the Generation node that differ only in \<^verbatim>\<open>image_ratio\<close> are the same
  computation: the same result, the same state left behind, the same inferencer call
  with the same keyword arguments.
\<close>

theorem generation_ignores_image_ratio:
  "(ImageGeneration_generate P model vae_model tokenizer vae_transform
        vit_transform new_token_ids prompt image_ratio seed cfg_text_scale cfg_img_scale
        cfg_interval timestep_shift num_timesteps cfg_renorm_min cfg_renorm_type
        text_temperature) w =
   (ImageGeneration_generate P model vae_model tokenizer vae_transform
        vit_transform new_token_ids prompt image_ratio' seed cfg_text_scale cfg_img_scale
        cfg_interval timestep_shift num_timesteps cfg_renorm_min cfg_renorm_type
        text_temperature) w \<and>
   calls_made (ImageGeneration_generate P model vae_model tokenizer vae_transform
        vit_transform new_token_ids prompt image_ratio seed cfg_text_scale cfg_img_scale
        cfg_interval timestep_shift num_timesteps cfg_renorm_min cfg_renorm_type
        text_temperature) w =
   calls_made (ImageGeneration_generate P model vae_model tokenizer vae_transform
        vit_transform new_token_ids prompt image_ratio' seed cfg_text_scale cfg_img_scale
        cfg_interval timestep_shift num_timesteps cfg_renorm_min cfg_renorm_type
        text_temperature) w"
  by (simp add: ImageGeneration_generate_dispatch)

subsection \<open>Keys of the result mapping\<close>

lemmas missing_first = missing_key_raises_dispatch [where before = "[]", simplified]

lemmas missing_second =
  missing_key_raises_dispatch [where before = "[k0]" and rest = "[]" for k0, simplified]

text \<open>
  C10. In every dispatch run, when the mapping the inferencer returned lacks a key the
  function reads, the run ends in a KeyError for that key and yields no tuple:
  \<^verbatim>\<open>'image'\<close> for the four image-producing functions, \<^verbatim>\<open>'text'\<close> (read after
  \<^verbatim>\<open>'image'\<close>) for the two think functions, \<^verbatim>\<open>'text'\<close> for Understanding.
\<close>

theorem missing_result_key_raises:
  "missing_key_raises (ImageGeneration_generate P model vae_model tokenizer vae_transform
        vit_transform new_token_ids prompt image_ratio seed cfg_text_scale cfg_img_scale
        cfg_interval timestep_shift num_timesteps cfg_renorm_min cfg_renorm_type
        text_temperature) w [] ''image'' \<and>
   missing_key_raises (ImageThinkGeneration_generate P model vae_model tokenizer vae_transform
        vit_transform new_token_ids prompt seed max_think_token_n cfg_text_scale
        cfg_img_scale timestep_shift num_timesteps cfg_renorm_min cfg_interval
        cfg_renorm_type text_temperature) w [] ''image'' \<and>
   missing_key_raises (ImageThinkGeneration_generate P model vae_model tokenizer vae_transform
        vit_transform new_token_ids prompt seed max_think_token_n cfg_text_scale
        cfg_img_scale timestep_shift num_timesteps cfg_renorm_min cfg_interval
        cfg_renorm_type text_temperature) w [''image''] ''text'' \<and>
   missing_key_raises (ImageEditing_editing P model vae_model tokenizer vae_transform
        vit_transform new_token_ids prompt image_in seed cfg_text_scale cfg_img_scale
        timestep_shift num_timesteps cfg_renorm_min) w [] ''image'' \<and>
   missing_key_raises (ImageThinkEditing_editing P model vae_model tokenizer vae_transform
        vit_transform new_token_ids prompt image_in seed max_think_token_n cfg_text_scale
        cfg_img_scale timestep_shift num_timesteps cfg_renorm_min) w [] ''image'' \<and>
   missing_key_raises (ImageThinkEditing_editing P model vae_model tokenizer vae_transform
        vit_transform new_token_ids prompt image_in seed max_think_token_n cfg_text_scale
        cfg_img_scale timestep_shift num_timesteps cfg_renorm_min) w [''image''] ''text'' \<and>
   missing_key_raises (ImageUnderstanding_understanding P model vae_model tokenizer vae_transform
        vit_transform new_token_ids prompt image_in seed max_think_token_n) w [] ''text''"
  by (simp add: dispatch_shape missing_first missing_second)

theorem missing_result_key_raises_witness:
  "fst (demo_generation True (Inr [(''text'', PStr ''a thought'')]) 42 fresh_world) =
     Inl (KeyError ''image'') \<and>
   fst (demo_think_generation True (Inr [(''text'', PStr ''a thought'')]) 42 fresh_world) =
     Inl (KeyError ''image'') \<and>
   fst (demo_think_generation True (Inr [(''image'', PObj 7)]) 42 fresh_world) =
     Inl (KeyError ''text'') \<and>
   fst (demo_editing True (Inr [(''text'', PStr ''a thought'')]) 42 fresh_world) =
     Inl (KeyError ''image'') \<and>
   fst (demo_think_editing True (Inr [(''text'', PStr ''a thought'')]) 42 fresh_world) =
     Inl (KeyError ''image'') \<and>
   fst (demo_think_editing True (Inr [(''image'', PObj 7)]) 42 fresh_world) =
     Inl (KeyError ''text'') \<and>
   fst (demo_understanding True (Inr [(''image'', PObj 7)]) 42 (PInt 1000) fresh_world) =
     Inl (KeyError ''text'')"
proof -
  have "missing_key_raises (demo_generation True (Inr [(''text'', PStr ''a thought'')]) 42)
      fresh_world [] ''image''"
    unfolding demo_defs by (rule missing_result_key_raises [THEN conjunct1])
  then have k0: "fst (demo_generation True (Inr [(''text'', PStr ''a thought'')]) 42 fresh_world) =
      Inl (KeyError ''image'')"
    by (simp add: missing_key_raises_def demo_defs dispatch_shape calls_made_mock)
  have "missing_key_raises (demo_think_generation True (Inr [(''text'', PStr ''a thought'')]) 42)
      fresh_world [] ''image''"
    unfolding demo_defs by (rule missing_result_key_raises [THEN conjunct2, THEN conjunct1])
  then have k1: "fst (demo_think_generation True (Inr [(''text'', PStr ''a thought'')]) 42 fresh_world) =
      Inl (KeyError ''image'')"
    by (simp add: missing_key_raises_def demo_defs dispatch_shape calls_made_mock)
  have "missing_key_raises (demo_think_generation True (Inr [(''image'', PObj 7)]) 42)
      fresh_world [''image''] ''text''"
    unfolding demo_defs by (rule missing_result_key_raises [THEN conjunct2, THEN conjunct2, THEN conjunct1])
  then have k2: "fst (demo_think_generation True (Inr [(''image'', PObj 7)]) 42 fresh_world) =
      Inl (KeyError ''text'')"
    by (simp add: missing_key_raises_def demo_defs dispatch_shape calls_made_mock)
  have "missing_key_raises (demo_editing True (Inr [(''text'', PStr ''a thought'')]) 42)
      fresh_world [] ''image''"
    unfolding demo_defs by (rule missing_result_key_raises [THEN conjunct2, THEN conjunct2, THEN conjunct2, THEN conjunct1])
  then have k3: "fst (demo_editing True (Inr [(''text'', PStr ''a thought'')]) 42 fresh_world) =
      Inl (KeyError ''image'')"
    by (simp add: missing_key_raises_def demo_defs dispatch_shape calls_made_mock)
  have "missing_key_raises (demo_think_editing True (Inr [(''text'', PStr ''a thought'')]) 42)
      fresh_world [] ''image''"
    unfolding demo_defs by (rule missing_result_key_raises [THEN conjunct2, THEN conjunct2, THEN conjunct2, THEN conjunct2, THEN conjunct1])
  then have k4: "fst (demo_think_editing True (Inr [(''text'', PStr ''a thought'')]) 42 fresh_world) =
      Inl (KeyError ''image'')"
    by (simp add: missing_key_raises_def demo_defs dispatch_shape calls_made_mock)
  have "missing_key_raises (demo_think_editing True (Inr [(''image'', PObj 7)]) 42)
      fresh_world [''image''] ''text''"
    unfolding demo_defs by (rule missing_result_key_raises [THEN conjunct2, THEN conjunct2, THEN conjunct2, THEN conjunct2, THEN conjunct2, THEN conjunct1])
  then have k5: "fst (demo_think_editing True (Inr [(''image'', PObj 7)]) 42 fresh_world) =
      Inl (KeyError ''text'')"
    by (simp add: missing_key_raises_def demo_defs dispatch_shape calls_made_mock)
  have "missing_key_raises (demo_understanding True (Inr [(''image'', PObj 7)]) 42 (PInt 1000))
      fresh_world [] ''text''"
    unfolding demo_defs by (rule missing_result_key_raises [THEN conjunct2, THEN conjunct2, THEN conjunct2, THEN conjunct2, THEN conjunct2, THEN conjunct2])
  then have k6: "fst (demo_understanding True (Inr [(''image'', PObj 7)]) 42 (PInt 1000) fresh_world) =
      Inl (KeyError ''text'')"
    by (simp add: missing_key_raises_def demo_defs dispatch_shape calls_made_mock)
  from k0 k1 k2 k3 k4 k5 k6 show ?thesis
    by (intro conjI)
qed

subsection \<open>The thinking budget of the Understanding node\<close>

text \<open>
  C3, as the code has it. A caller asks the Understanding node for at most 500 thinking
  tokens; the inferencer is called with \<^verbatim>\<open>max_think_token_n=1000\<close>.
\<close>

theorem understanding_max_think_token_n_fixed:
  "map (\<lambda>call. map_of (inv_kwargs call) ''max_think_token_n'')
     (calls_made (demo_understanding True full_reply 42 (PInt 500)) fresh_world) =
   [Some (PInt 1000)]"
  by (simp add: demo_defs dispatch_shape calls_made_mock)

subsection \<open>Device placement\<close>

lemma contains_setitem:
  "contains (setitem k v d) k' = (k' = k \<or> contains d k')"
  by (simp add: contains_def setitem_def update_conv')

lemma map_of_setitem:
  "map_of (setitem k v d) k' = (if k' = k then Some v else map_of d k')"
  by (simp add: setitem_def update_conv')

lemma map_of_assign_or_default:
  "distinct ks \<Longrightarrow>
   map_of (assign_or_default fd ks m) k =
     (if k \<in> set ks then Some (if contains m k then fd else PStr ''cuda:0'')
      else map_of m k)"
proof (induction ks arbitrary: m)
  case Nil
  then show ?case by simp
next
  case (Cons a ks)
  then show ?case
    by (auto simp add: map_of_setitem contains_setitem)
qed

lemma map_of_assign_present:
  "map_of (assign_present fd ks m) k =
     (if k \<in> set ks \<and> contains m k then Some fd else map_of m k)"
proof (induction ks arbitrary: m)
  case Nil
  then show ?case by simp
next
  case (Cons a ks)
  then show ?case
    by (auto simp add: map_of_setitem contains_setitem)
qed

lemma distinct_same_device_modules: "distinct same_device_modules"
  by (simp add: same_device_modules_def)

lemma first_same_device_module:
  "same_device_modules ! 0 = ''language_model.model.embed_tokens''"
  "same_device_modules ! 0 \<in> set same_device_modules"
  by (simp_all add: same_device_modules_def)

lemma map_of_place_same_device:
  "k \<in> set same_device_modules \<Longrightarrow>
   map_of (place_same_device n m) k =
     (if n = 1
      then Some (if contains m k
                 then get_default m (same_device_modules ! 0) (PStr ''cuda:0'')
                 else PStr ''cuda:0'')
      else if contains m k then Some (get_default m (same_device_modules ! 0) PNone)
      else None)"
  by (auto simp add: place_same_device_def Let_def map_of_assign_or_default
      map_of_assign_present distinct_same_device_modules contains_def)

text \<open>
  C2, as the code has it. Whatever the number of devices: when the placement plan has an
  entry for each of the seven module names, the pass leaves all seven on one device, the
  one the plan gave the first of them. And with exactly one device and a plan without an
  entry for the first name, the pass puts all seven on \<^verbatim>\<open>"cuda:0"\<close>.
\<close>

theorem colocation_when_planned:
  "((\<forall>k \<in> set same_device_modules. contains device_map k) \<longrightarrow>
      (\<exists>d. map_of device_map (same_device_modules ! 0) = Some d \<and>
           (\<forall>k \<in> set same_device_modules.
              map_of (place_same_device n device_map) k = Some d))) \<and>
   (n = 1 \<and> \<not> contains device_map (same_device_modules ! 0) \<longrightarrow>
      (\<forall>k \<in> set same_device_modules.
         map_of (place_same_device n device_map) k = Some (PStr ''cuda:0'')))"
proof (intro conjI impI)
  assume all: "\<forall>k \<in> set same_device_modules. contains device_map k"
  then have "contains device_map (same_device_modules ! 0)"
    using first_same_device_module(2) by blast
  then obtain d where d: "map_of device_map (same_device_modules ! 0) = Some d"
    by (auto simp add: contains_def)
  then have "get_default device_map (same_device_modules ! 0) dflt = d" for dflt
    by (simp add: get_default_def)
  with all have "\<forall>k \<in> set same_device_modules.
      map_of (place_same_device n device_map) k = Some d"
    by (simp add: map_of_place_same_device)
  with d show "\<exists>d. map_of device_map (same_device_modules ! 0) = Some d \<and>
      (\<forall>k \<in> set same_device_modules. map_of (place_same_device n device_map) k = Some d)"
    by blast
next
  assume one: "n = 1 \<and> \<not> contains device_map (same_device_modules ! 0)"
  then have "get_default device_map (same_device_modules ! 0) (PStr ''cuda:0'') =
      PStr ''cuda:0''"
    by (simp add: get_default_def contains_def)
  with one show "\<forall>k \<in> set same_device_modules.
      map_of (place_same_device n device_map) k = Some (PStr ''cuda:0'')"
    by (simp add: map_of_place_same_device)
qed

theorem colocation_when_planned_witness:
  "list_all (contains split_plan) same_device_modules \<and>
   list_all (\<lambda>k. map_of (place_same_device 2 split_plan) k = Some (PInt 0))
     same_device_modules \<and>
   list_all (\<lambda>k. map_of (place_same_device 1 split_plan) k = Some (PInt 0))
     same_device_modules \<and>
   \<not> contains whole_plan (same_device_modules ! 0) \<and>
   list_all (\<lambda>k. map_of (place_same_device 1 whole_plan) k = Some (PStr ''cuda:0''))
     same_device_modules"
proof -
  have planned: "list_all (contains split_plan) same_device_modules"
    by (simp add: same_device_modules_def split_plan_def contains_def)
  have first: "map_of split_plan (same_device_modules ! 0) = Some (PInt 0)"
    by (simp add: same_device_modules_def split_plan_def)
  have absent: "\<not> contains whole_plan (same_device_modules ! 0)"
    by (simp add: same_device_modules_def whole_plan_def contains_def)
  from planned first
    colocation_when_planned [of split_plan 2, THEN conjunct1]
    colocation_when_planned [of split_plan 1, THEN conjunct1]
  have both:
    "list_all (\<lambda>k. map_of (place_same_device 2 split_plan) k = Some (PInt 0))
       same_device_modules"
    "list_all (\<lambda>k. map_of (place_same_device 1 split_plan) k = Some (PInt 0))
       same_device_modules"
    by (simp_all add: list_all_iff)
  from absent colocation_when_planned [of whole_plan 1, THEN conjunct2]
  have single:
    "list_all (\<lambda>k. map_of (place_same_device 1 whole_plan) k = Some (PStr ''cuda:0''))
       same_device_modules"
    by (simp add: list_all_iff)
  from planned both absent single show ?thesis
    by (intro conjI)
qed

theorem colocation_split_counterexample:
  "length same_device_modules = 7 \<and>
   map_of (place_same_device 2 top_level_plan) ''language_model.model.embed_tokens'' = None \<and>
   map_of (place_same_device 2 top_level_plan) ''time_embedder'' = Some PNone \<and>
   map_of (place_same_device 1 [(''language_model.model.embed_tokens'', PStr ''cpu'')])
     ''language_model.model.embed_tokens'' = Some (PStr ''cpu'') \<and>
   map_of (place_same_device 1 [(''language_model.model.embed_tokens'', PStr ''cpu'')])
     ''time_embedder'' = Some (PStr ''cuda:0'')"
  by (simp add: map_of_place_same_device same_device_modules_def top_level_plan_def
      contains_def get_default_def)

subsection \<open>Loading\<close>

lemma py_then_Inl: "r = Inl e \<Longrightarrow> py_then r f = Inl e"
  by (simp add: py_then_def)

lemma py_then_Inr_iff: "(py_then r f = Inr y) = (\<exists>x. r = Inr x \<and> f x = Inr y)"
  by (cases r) (simp_all add: py_then_def)

lemma load_model_llm_config_raises:
  "Qwen2Config_from_json_file X (path_join model_path ''llm_config.json'') = Inl e \<Longrightarrow>
   load_model X model_path = Inl e"
  by (simp add: load_model_def py_then_def)

lemma load_model_vit_config_raises:
  "SiglipVisionConfig_from_json_file X (path_join model_path ''vit_config.json'') = Inl e \<Longrightarrow>
   load_model X model_path =
     (case Qwen2Config_from_json_file X (path_join model_path ''llm_config.json'') of
        Inl e' \<Rightarrow> Inl e'
      | Inr llm_config \<Rightarrow> Inl e)"
  by (simp add: load_model_def py_then_def Let_def split: sum.splits)

lemma load_model_prepared:
  assumes "prepared X model_path model vae_model tokenizer vae_transform vit_transform
      new_token_ids device_map"
  shows "load_model X model_path =
      py_then (checkpoint_load X model_path model device_map) (\<lambda>placed.
      py_then (model_eval X placed) (\<lambda>evaluated.
      Inr [evaluated, vae_model, tokenizer, vae_transform, vit_transform, new_token_ids]))"
  using assms
  by (auto simp add: prepared_def checkpoint_load_def load_model_def Let_def py_then_def)

lemma load_model_returned:
  assumes "load_model X model_path = Inr bundle"
  shows "\<exists>model vae_model tokenizer vae_transform vit_transform new_token_ids device_map
        placed evaluated.
      prepared X model_path model vae_model tokenizer vae_transform vit_transform
        new_token_ids device_map \<and>
      checkpoint_load X model_path model device_map = Inr placed \<and>
      model_eval X placed = Inr evaluated \<and>
      bundle =
        [evaluated, vae_model, tokenizer, vae_transform, vit_transform, new_token_ids]"
  using assms
  by (auto simp add: load_model_def Let_def py_then_Inr_iff prepared_def
      checkpoint_load_def split: prod.splits)

text \<open>
  C7. \<^verbatim>\<open>load_model\<close> returns all or nothing. When reading either configuration file
  raises (the file is absent or malformed), \<^verbatim>\<open>load_model\<close> raises that error and returns
  no bundle. It returns a bundle exactly when every one of its steps has succeeded, each
  on what the steps before it gave, through loading the checkpoint under the placed
  device map and switching the loaded model to inference mode; the bundle is then the
  tuple of six those steps gave. When the checkpoint load or the switch to inference
  mode raises after all the steps before succeeded, \<^verbatim>\<open>load_model\<close> raises that error.
\<close>

theorem load_model_all_or_nothing:
  "(Qwen2Config_from_json_file X (path_join model_path ''llm_config.json'') = Inl e \<longrightarrow>
      load_model X model_path = Inl e) \<and>
   (SiglipVisionConfig_from_json_file X (path_join model_path ''vit_config.json'') = Inl e \<longrightarrow>
      load_model X model_path =
        (case Qwen2Config_from_json_file X (path_join model_path ''llm_config.json'') of
           Inl e' \<Rightarrow> Inl e'
         | Inr llm_config \<Rightarrow> Inl e)) \<and>
   (load_model X model_path = Inr bundle \<longleftrightarrow>
      (\<exists>model vae_model tokenizer vae_transform vit_transform new_token_ids device_map
          placed evaluated.
         prepared X model_path model vae_model tokenizer vae_transform vit_transform
           new_token_ids device_map \<and>
         checkpoint_load X model_path model device_map = Inr placed \<and>
         model_eval X placed = Inr evaluated \<and>
         bundle =
           [evaluated, vae_model, tokenizer, vae_transform, vit_transform,
            new_token_ids])) \<and>
   (prepared X model_path model vae_model tokenizer vae_transform vit_transform
      new_token_ids device_map \<and>
    checkpoint_load X model_path model device_map = Inl e \<longrightarrow>
      load_model X model_path = Inl e) \<and>
   (prepared X model_path model vae_model tokenizer vae_transform vit_transform
      new_token_ids device_map \<and>
    checkpoint_load X model_path model device_map = Inr placed \<and>
    model_eval X placed = Inl e \<longrightarrow>
      load_model X model_path = Inl e)"
proof (intro conjI impI iffI)
  assume "Qwen2Config_from_json_file X (path_join model_path ''llm_config.json'') = Inl e"
  then show "load_model X model_path = Inl e"
    by (rule load_model_llm_config_raises)
next
  assume "SiglipVisionConfig_from_json_file X (path_join model_path ''vit_config.json'') =
      Inl e"
  then show "load_model X model_path =
      (case Qwen2Config_from_json_file X (path_join model_path ''llm_config.json'') of
         Inl e' \<Rightarrow> Inl e'
       | Inr llm_config \<Rightarrow> Inl e)"
    by (rule load_model_vit_config_raises)
next
  assume "load_model X model_path = Inr bundle"
  then show "\<exists>model vae_model tokenizer vae_transform vit_transform new_token_ids device_map
        placed evaluated.
      prepared X model_path model vae_model tokenizer vae_transform vit_transform
        new_token_ids device_map \<and>
      checkpoint_load X model_path model device_map = Inr placed \<and>
      model_eval X placed = Inr evaluated \<and>
      bundle =
        [evaluated, vae_model, tokenizer, vae_transform, vit_transform, new_token_ids]"
    by (rule load_model_returned)
next
  assume "\<exists>model vae_model tokenizer vae_transform vit_transform new_token_ids device_map
        placed evaluated.
      prepared X model_path model vae_model tokenizer vae_transform vit_transform
        new_token_ids device_map \<and>
      checkpoint_load X model_path model device_map = Inr placed \<and>
      model_eval X placed = Inr evaluated \<and>
      bundle =
        [evaluated, vae_model, tokenizer, vae_transform, vit_transform, new_token_ids]"
  then show "load_model X model_path = Inr bundle"
    by (auto simp add: load_model_prepared py_then_def)
next
  assume "prepared X model_path model vae_model tokenizer vae_transform vit_transform
      new_token_ids device_map \<and>
    checkpoint_load X model_path model device_map = Inl e"
  then have p: "prepared X model_path model vae_model tokenizer vae_transform vit_transform
      new_token_ids device_map"
    and c: "checkpoint_load X model_path model device_map = Inl e"
    by simp_all
  from load_model_prepared [OF p] c show "load_model X model_path = Inl e"
    by (simp add: py_then_def)
next
  assume "prepared X model_path model vae_model tokenizer vae_transform vit_transform
      new_token_ids device_map \<and>
    checkpoint_load X model_path model device_map = Inr placed \<and>
    model_eval X placed = Inl e"
  then have p: "prepared X model_path model vae_model tokenizer vae_transform vit_transform
      new_token_ids device_map"
    and c: "checkpoint_load X model_path model device_map = Inr placed"
    and v: "model_eval X placed = Inl e"
    by simp_all
  from load_model_prepared [OF p] c v show "load_model X model_path = Inl e"
    by (simp add: py_then_def)
qed

lemma path_join_model_dir:
  "path_join ''./BAGEL-7B-MoT'' ''llm_config.json'' = ''./BAGEL-7B-MoT/llm_config.json''"
  "path_join ''./BAGEL-7B-MoT'' ''vit_config.json'' = ''./BAGEL-7B-MoT/vit_config.json''"
  "path_join ''./BAGEL-7B-MoT'' ''ae.safetensors'' = ''./BAGEL-7B-MoT/ae.safetensors''"
  "path_join ''./BAGEL-7B-MoT'' ''ema.safetensors'' = ''./BAGEL-7B-MoT/ema.safetensors''"
  by (simp_all add: path_join_def)

lemma prepared_mock:
  "''./BAGEL-7B-MoT/llm_config.json'' \<notin> set missing \<Longrightarrow>
   ''./BAGEL-7B-MoT/vit_config.json'' \<notin> set missing \<Longrightarrow>
   prepared (mock_loader missing n plan) ''./BAGEL-7B-MoT''
     (PObj 1) (PObj 2) (PObj 3) (PObj 4) (PObj 5) (PObj 6) plan"
  by (simp add: prepared_def mock_loader_def path_join_model_dir getattr_def setattr_def)

lemma checkpoint_load_mock:
  "checkpoint_load (mock_loader missing n plan) ''./BAGEL-7B-MoT'' model device_map =
     (if ''./BAGEL-7B-MoT/ema.safetensors'' \<in> set missing
      then Inl (OSError ''./BAGEL-7B-MoT/ema.safetensors'') else Inr model)"
  by (simp add: checkpoint_load_def mock_loader_def path_join_model_dir)

theorem load_model_all_or_nothing_witness:
  "load_model (mock_loader [''./BAGEL-7B-MoT/llm_config.json''] 1 whole_plan)
     ''./BAGEL-7B-MoT'' = Inl (OSError ''./BAGEL-7B-MoT/llm_config.json'') \<and>
   load_model (mock_loader [''./BAGEL-7B-MoT/vit_config.json''] 1 whole_plan)
     ''./BAGEL-7B-MoT'' = Inl (OSError ''./BAGEL-7B-MoT/vit_config.json'') \<and>
   prepared (mock_loader [''./BAGEL-7B-MoT/ema.safetensors''] 1 whole_plan)
     ''./BAGEL-7B-MoT'' (PObj 1) (PObj 2) (PObj 3) (PObj 4) (PObj 5) (PObj 6) whole_plan \<and>
   load_model (mock_loader [''./BAGEL-7B-MoT/ema.safetensors''] 1 whole_plan)
     ''./BAGEL-7B-MoT'' = Inl (OSError ''./BAGEL-7B-MoT/ema.safetensors'') \<and>
   prepared (mock_loader [''model.eval''] 1 whole_plan)
     ''./BAGEL-7B-MoT'' (PObj 1) (PObj 2) (PObj 3) (PObj 4) (PObj 5) (PObj 6) whole_plan \<and>
   load_model (mock_loader [''model.eval''] 1 whole_plan) ''./BAGEL-7B-MoT'' =
     Inl (RuntimeError ''model.eval'') \<and>
   prepared (mock_loader [] 1 whole_plan)
     ''./BAGEL-7B-MoT'' (PObj 1) (PObj 2) (PObj 3) (PObj 4) (PObj 5) (PObj 6) whole_plan \<and>
   load_model (mock_loader [] 1 whole_plan) ''./BAGEL-7B-MoT'' =
     Inr [PObj 1, PObj 2, PObj 3, PObj 4, PObj 5, PObj 6]"
proof -
  have llm: "Qwen2Config_from_json_file
      (mock_loader [''./BAGEL-7B-MoT/llm_config.json''] 1 whole_plan)
      (path_join ''./BAGEL-7B-MoT'' ''llm_config.json'') =
      Inl (OSError ''./BAGEL-7B-MoT/llm_config.json'')"
    by (simp add: mock_loader_def path_join_model_dir)
  have vit: "SiglipVisionConfig_from_json_file
      (mock_loader [''./BAGEL-7B-MoT/vit_config.json''] 1 whole_plan)
      (path_join ''./BAGEL-7B-MoT'' ''vit_config.json'') =
      Inl (OSError ''./BAGEL-7B-MoT/vit_config.json'')"
    by (simp add: mock_loader_def path_join_model_dir)
  have llm_ok: "Qwen2Config_from_json_file
      (mock_loader [''./BAGEL-7B-MoT/vit_config.json''] 1 whole_plan)
      (path_join ''./BAGEL-7B-MoT'' ''llm_config.json'') =
      Inr [(''hidden_size'', PInt 3584)]"
    by (simp add: mock_loader_def path_join_model_dir)
  have p_ema: "prepared (mock_loader [''./BAGEL-7B-MoT/ema.safetensors''] 1 whole_plan)
     ''./BAGEL-7B-MoT'' (PObj 1) (PObj 2) (PObj 3) (PObj 4) (PObj 5) (PObj 6) whole_plan"
    and p_eval: "prepared (mock_loader [''model.eval''] 1 whole_plan)
     ''./BAGEL-7B-MoT'' (PObj 1) (PObj 2) (PObj 3) (PObj 4) (PObj 5) (PObj 6) whole_plan"
    and p_ok: "prepared (mock_loader [] 1 whole_plan)
     ''./BAGEL-7B-MoT'' (PObj 1) (PObj 2) (PObj 3) (PObj 4) (PObj 5) (PObj 6) whole_plan"
    by (rule prepared_mock; simp)+
  have c_ema: "checkpoint_load (mock_loader [''./BAGEL-7B-MoT/ema.safetensors''] 1 whole_plan)
      ''./BAGEL-7B-MoT'' (PObj 1) whole_plan = Inl (OSError ''./BAGEL-7B-MoT/ema.safetensors'')"
    and c_eval: "checkpoint_load (mock_loader [''model.eval''] 1 whole_plan)
      ''./BAGEL-7B-MoT'' (PObj 1) whole_plan = Inr (PObj 1)"
    and c_ok: "checkpoint_load (mock_loader [] 1 whole_plan)
      ''./BAGEL-7B-MoT'' (PObj 1) whole_plan = Inr (PObj 1)"
    by (simp_all add: checkpoint_load_mock)
  have e_eval: "model_eval (mock_loader [''model.eval''] 1 whole_plan) (PObj 1) =
      Inl (RuntimeError ''model.eval'')"
    and e_ok: "model_eval (mock_loader [] 1 whole_plan) (PObj 1) = Inr (PObj 1)"
    by (simp_all add: mock_loader_def)
  from llm have a: "load_model (mock_loader [''./BAGEL-7B-MoT/llm_config.json''] 1 whole_plan)
     ''./BAGEL-7B-MoT'' = Inl (OSError ''./BAGEL-7B-MoT/llm_config.json'')"
    using load_model_all_or_nothing [THEN conjunct1] by blast
  from vit llm_ok
  have b: "load_model (mock_loader [''./BAGEL-7B-MoT/vit_config.json''] 1 whole_plan)
     ''./BAGEL-7B-MoT'' = Inl (OSError ''./BAGEL-7B-MoT/vit_config.json'')"
    using load_model_all_or_nothing [THEN conjunct2, THEN conjunct1,
      of "mock_loader [''./BAGEL-7B-MoT/vit_config.json''] 1 whole_plan" "''./BAGEL-7B-MoT''"
         "OSError ''./BAGEL-7B-MoT/vit_config.json''"]
    by simp
  from p_ema c_ema
  have c: "load_model (mock_loader [''./BAGEL-7B-MoT/ema.safetensors''] 1 whole_plan)
     ''./BAGEL-7B-MoT'' = Inl (OSError ''./BAGEL-7B-MoT/ema.safetensors'')"
    using load_model_all_or_nothing
      [THEN conjunct2, THEN conjunct2, THEN conjunct2, THEN conjunct1]
    by blast
  from p_eval c_eval e_eval
  have d: "load_model (mock_loader [''model.eval''] 1 whole_plan) ''./BAGEL-7B-MoT'' =
      Inl (RuntimeError ''model.eval'')"
    using load_model_all_or_nothing
      [THEN conjunct2, THEN conjunct2, THEN conjunct2, THEN conjunct2]
    by blast
  from p_ok c_ok e_ok
  have ok: "load_model (mock_loader [] 1 whole_plan) ''./BAGEL-7B-MoT'' =
      Inr [PObj 1, PObj 2, PObj 3, PObj 4, PObj 5, PObj 6]"
    using load_model_all_or_nothing
      [THEN conjunct2, THEN conjunct2, THEN conjunct1,
       of "mock_loader [] 1 whole_plan" "''./BAGEL-7B-MoT''"
          "[PObj 1, PObj 2, PObj 3, PObj 4, PObj 5, PObj 6]"]
    by blast
  from a b p_ema c p_eval d p_ok ok show ?thesis
    by (intro conjI)
qed

subsection \<open>The host's call\<close>

text \<open>
  C4, as the code has it. The host's call with one keyword argument per required input
  is rejected by three of the eight node functions, whatever the values: their parameter
  lists lack \<^verbatim>\<open>image_ratio\<close> (and, for the two editing nodes, \<^verbatim>\<open>cfg_interval\<close>,
  \<^verbatim>\<open>cfg_renorm_type\<close> and \<^verbatim>\<open>text_temperature\<close>). The other five accept it.
\<close>

theorem host_call_unexpected_keyword:
  "host_call ImageThinkGeneration input_value = Inl (UnexpectedKeyword ''image_ratio'') \<and>
   host_call ImageEditing input_value = Inl (UnexpectedKeyword ''image_ratio'') \<and>
   host_call ImageThinkEditing input_value = Inl (UnexpectedKeyword ''image_ratio'') \<and>
   filter (\<lambda>k. k \<notin> set (parameters ImageEditing)) (INPUT_TYPES_required ImageEditing) =
     [''image_ratio'', ''cfg_interval'', ''cfg_renorm_type'', ''text_temperature''] \<and>
   map (\<lambda>c. filter (\<lambda>k. k \<notin> set (parameters c)) (INPUT_TYPES_required c))
     [LoadBAGELModel, BagelPrompt, LoadEditImage, ImageGeneration, ImageUnderstanding] =
     [[], [], [], [], []]"
  by (simp add: host_call_def bind_keywords_def comp_def)

subsection \<open>Further properties\<close>

text \<open>
  X1. The Generation and Think-Generation nodes do not read their \<^verbatim>\<open>cfg_interval\<close> and
  \<^verbatim>\<open>text_temperature\<close> inputs, and Think-Generation does not read \<^verbatim>\<open>cfg_renorm_type\<close>
  either: changing them changes nothing.
\<close>

theorem generation_ignores_interval_and_temperature:
  "ImageGeneration_generate P model vae_model tokenizer vae_transform vit_transform
     new_token_ids prompt image_ratio seed cfg_text_scale cfg_img_scale cfg_interval
     timestep_shift num_timesteps cfg_renorm_min cfg_renorm_type text_temperature =
   ImageGeneration_generate P model vae_model tokenizer vae_transform vit_transform
     new_token_ids prompt image_ratio seed cfg_text_scale cfg_img_scale cfg_interval'
     timestep_shift num_timesteps cfg_renorm_min cfg_renorm_type text_temperature' \<and>
   ImageThinkGeneration_generate P model vae_model tokenizer vae_transform vit_transform
     new_token_ids prompt seed max_think_token_n cfg_text_scale cfg_img_scale
     timestep_shift num_timesteps cfg_renorm_min cfg_interval cfg_renorm_type
     text_temperature =
   ImageThinkGeneration_generate P model vae_model tokenizer vae_transform vit_transform
     new_token_ids prompt seed max_think_token_n cfg_text_scale cfg_img_scale
     timestep_shift num_timesteps cfg_renorm_min cfg_interval' cfg_renorm_type'
     text_temperature'"
  by (simp add: dispatch_shape)

text \<open>
  X2. The placement pass in full. A listed module name ends, with one device, on the
  first name's device if the plan had an entry for it and on \<^verbatim>\<open>"cuda:0"\<close> if not (the
  first name's device being \<^verbatim>\<open>"cuda:0"\<close> when the plan has no entry for the first name);
  with any other device count it ends on the first name's device if the plan had an
  entry for it (\<^verbatim>\<open>None\<close> when the plan has no entry for the first name) and stays without
  an entry if not. Every other key of the plan keeps its device.
\<close>

theorem place_same_device_entries:
  "(k \<in> set same_device_modules \<longrightarrow>
      map_of (place_same_device n device_map) k =
        (if n = 1
         then Some (if contains device_map k
                    then get_default device_map (same_device_modules ! 0) (PStr ''cuda:0'')
                    else PStr ''cuda:0'')
         else if contains device_map k
              then Some (get_default device_map (same_device_modules ! 0) PNone)
              else None)) \<and>
   (k \<notin> set same_device_modules \<longrightarrow>
      map_of (place_same_device n device_map) k = map_of device_map k)"
  by (simp add: map_of_place_same_device)
    (simp add: place_same_device_def Let_def map_of_assign_or_default
      map_of_assign_present distinct_same_device_modules)

theorem place_same_device_entries_witness:
  "''time_embedder'' \<in> set same_device_modules \<and>
   map_of (place_same_device 2 top_level_plan) ''time_embedder'' = Some PNone \<and>
   map_of (place_same_device 1 top_level_plan) ''time_embedder'' = Some (PStr ''cuda:0'') \<and>
   ''vit_model'' \<notin> set same_device_modules \<and>
   map_of (place_same_device 2 top_level_plan) ''vit_model'' = Some (PInt 1)"
proof -
  have listed: "''time_embedder'' \<in> set same_device_modules"
    and other: "''vit_model'' \<notin> set same_device_modules"
    by (simp_all add: same_device_modules_def)
  from listed
    place_same_device_entries [of "''time_embedder''" 2 top_level_plan, THEN conjunct1]
    place_same_device_entries [of "''time_embedder''" 1 top_level_plan, THEN conjunct1]
  have a: "map_of (place_same_device 2 top_level_plan) ''time_embedder'' = Some PNone"
    and b: "map_of (place_same_device 1 top_level_plan) ''time_embedder'' =
      Some (PStr ''cuda:0'')"
    by (simp_all add: top_level_plan_def same_device_modules_def contains_def
        get_default_def)
  from other
    place_same_device_entries [of "''vit_model''" 2 top_level_plan, THEN conjunct2]
  have c: "map_of (place_same_device 2 top_level_plan) ''vit_model'' = Some (PInt 1)"
    by (simp add: top_level_plan_def)
  from listed a b other c show ?thesis
    by (intro conjI)
qed

text \<open>
  X3. A seed that \<^verbatim>\<open>np.random.seed\<close> rejects (negative, or \<open>2^32\<close> and above) stops every
  dispatch function before the inferencer is called: the run ends in ValueError and
  makes no call.
\<close>

theorem rejected_seed_makes_no_call:
  assumes "seed < 0 \<or> 2 ^ 32 \<le> seed"
  shows
  "fst (ImageUnderstanding_understanding P model vae_model tokenizer vae_transform
          vit_transform new_token_ids prompt image_in seed max_think_token_n w) =
     Inl (ValueError ''Seed must be between 0 and 2**32 - 1'') \<and>
   calls_made (ImageUnderstanding_understanding P model vae_model tokenizer vae_transform
          vit_transform new_token_ids prompt image_in seed max_think_token_n) w = []"
  using assms
  by (auto simp add: dispatch_shape result_dispatch calls_made_dispatch)

theorem rejected_seed_makes_no_call_witness:
  "((- 1 :: int) < 0 \<or> 2 ^ 32 \<le> (- 1 :: int)) \<and>
   fst (demo_understanding True full_reply (- 1) (PInt 1000) fresh_world) =
     Inl (ValueError ''Seed must be between 0 and 2**32 - 1'') \<and>
   calls_made (demo_understanding True full_reply (- 1) (PInt 1000)) fresh_world = []"
proof -
  have neg: "(- 1 :: int) < 0 \<or> 2 ^ 32 \<le> (- 1 :: int)"
    by simp
  from rejected_seed_makes_no_call [OF neg] neg show ?thesis
    unfolding demo_understanding_def by blast
qed

end
